theory Spec2Isabelle
  imports Complex_Main
begin

section \<open>JavaScript strings and the regular expressions of the pipeline\<close>

text \<open>
  A JavaScript string is a sequence of UTF-16 code units: \<^verbatim>\<open>length\<close>, \<^verbatim>\<open>substring\<close>,
  \<^verbatim>\<open>split\<close>, \<^verbatim>\<open>replace\<close> and the regular expressions (none of which carries the
  \<^verbatim>\<open>u\<close> flag) all work on code units. A string is therefore a list of code units, each
  an integer from 0 to 65535; the functions below only compare code units with constants
  and are defined for every list of integers. \<open>utf16\<close> writes an ASCII literal.
\<close>

type_synonym jschar = int
type_synonym jsstring = "jschar list"

abbreviation utf16 :: "string \<Rightarrow> jsstring" where
  "utf16 s \<equiv> map of_char s"

text \<open>
  The class \<^verbatim>\<open>\s\<close> (also the characters that \<^verbatim>\<open>String.prototype.trim\<close> strips):
  TAB, LF, VT, FF, CR, SP, NBSP, U+1680, U+2000..U+200A, U+2028, U+2029, U+202F, U+205F,
  U+3000, U+FEFF.
\<close>

definition isWhiteSpace :: "jschar \<Rightarrow> bool" where
  "isWhiteSpace c \<longleftrightarrow>
     c \<in> set [9, 10, 11, 12, 13, 32, 160, 5760, 8232, 8233, 8239, 8287, 12288, 65279]
     \<or> (8192 \<le> c \<and> c \<le> 8202)"

text \<open>The same class by ranges, which is how it is evaluated.\<close>

lemma isWhiteSpace_ranges [code]:
  "isWhiteSpace c \<longleftrightarrow>
     (if c < 160 then c = 32 \<or> (9 \<le> c \<and> c \<le> 13)
      else c = 160 \<or> c = 5760 \<or> (8192 \<le> c \<and> c \<le> 8202) \<or> c = 8232 \<or> c = 8233
           \<or> c = 8239 \<or> c = 8287 \<or> c = 12288 \<or> c = 65279)"
  by (auto simp: isWhiteSpace_def)

definition isDigit :: "jschar \<Rightarrow> bool" where
  "isDigit c \<longleftrightarrow> 48 \<le> c \<and> c \<le> 57"

definition isUpper :: "jschar \<Rightarrow> bool" where
  "isUpper c \<longleftrightarrow> 65 \<le> c \<and> c \<le> 90"

definition isLower :: "jschar \<Rightarrow> bool" where
  "isLower c \<longleftrightarrow> 97 \<le> c \<and> c \<le> 122"

text \<open>\<^verbatim>\<open>\w\<close>, which decides the word boundary \<^verbatim>\<open>\b\<close>: \<^verbatim>\<open>[A-Za-z0-9_]\<close>.\<close>

definition isWordChar :: "jschar \<Rightarrow> bool" where
  "isWordChar c \<longleftrightarrow> isUpper c \<or> isLower c \<or> isDigit c \<or> c = 95"

text \<open>\<^verbatim>\<open>[.!?]\<close>, the sentence terminators.\<close>

definition isSentenceEnd :: "jschar \<Rightarrow> bool" where
  "isSentenceEnd c \<longleftrightarrow> c \<in> set [46, 33, 63]"

text \<open>\<^verbatim>\<open>[,.;:!?]\<close>, the punctuation of the cleaning rules.\<close>

definition isPunct :: "jschar \<Rightarrow> bool" where
  "isPunct c \<longleftrightarrow> c \<in> set [44, 46, 59, 58, 33, 63]"

definition trim :: "jsstring \<Rightarrow> jsstring" where
  "trim s = rev (dropWhile isWhiteSpace (rev (dropWhile isWhiteSpace s)))"

text \<open>\<^verbatim>\<open>Array.prototype.join\<close>.\<close>

fun join :: "jsstring \<Rightarrow> jsstring list \<Rightarrow> jsstring" where
  "join sep [] = []"
| "join sep [x] = x"
| "join sep (x # y # ys) = x @ sep @ join sep (y # ys)"

text \<open>
  \<^verbatim>\<open>Array.prototype.slice(start)\<close> and \<^verbatim>\<open>slice(0, end)\<close>: a negative argument counts
  from the end of the array, and both are clamped to the array.
\<close>

definition sliceFrom :: "int \<Rightarrow> 'a list \<Rightarrow> 'a list" where
  "sliceFrom start xs =
     (let n = int (length xs);
          k = (if start < 0 then max (n + start) 0 else min start n)
      in drop (nat k) xs)"

definition sliceTo :: "int \<Rightarrow> 'a list \<Rightarrow> 'a list" where
  "sliceTo end xs =
     (let n = int (length xs);
          k = (if end < 0 then max (n + end) 0 else min end n)
      in take (nat k) xs)"

lemma length_dropWhile_less [termination_simp]:
  "length (dropWhile P xs) < Suc (length xs)"
  by (simp add: le_imp_less_Suc length_dropWhile_le)

lemma length_tl_dropWhile_less [termination_simp]:
  "length (dropWhile P xs) - Suc 0 < Suc (length xs)"
  using length_dropWhile_le [of P xs] by simp

text \<open>
  \<^verbatim>\<open>s.split(/\s+/)\<close>. The split algorithm walks a position \<open>q\<close> through the string and
  tries the separator there; \<open>cur\<close> is the piece collected since the last separator. A
  match of \<^verbatim>\<open>\s+\<close> is greedy, so it takes the whole run of white space. The empty string
  splits into one empty piece.
\<close>

fun splitWhitespace_from :: "jsstring \<Rightarrow> jsstring \<Rightarrow> jsstring list" where
  "splitWhitespace_from cur [] = [cur]"
| "splitWhitespace_from cur (c # cs) =
     (if isWhiteSpace c then cur # splitWhitespace_from [] (dropWhile isWhiteSpace cs)
      else splitWhitespace_from (cur @ [c]) cs)"

definition splitWhitespace :: "jsstring \<Rightarrow> jsstring list" where
  "splitWhitespace s = splitWhitespace_from [] s"

text \<open>
  \<^verbatim>\<open>s.split(/(?<=[.!?])\s+/)\<close>: a run of white space separates two sentences when the
  code unit just before it is a sentence terminator. The look-behind reads the string, not
  the piece; the two agree because a piece that has just been started begins at a code unit
  that is not white space.
\<close>

fun splitSentences_from :: "jsstring \<Rightarrow> jsstring \<Rightarrow> jsstring list" where
  "splitSentences_from cur [] = [cur]"
| "splitSentences_from cur (c # cs) =
     (if isWhiteSpace c \<and> cur \<noteq> [] \<and> isSentenceEnd (last cur)
      then cur # splitSentences_from [] (dropWhile isWhiteSpace cs)
      else splitSentences_from (cur @ [c]) cs)"

definition splitSentences :: "jsstring \<Rightarrow> jsstring list" where
  "splitSentences s = splitSentences_from [] s"

text \<open>
  \<^verbatim>\<open>s.split(/\n\s*\n/)\<close>: at a line feed, \<^verbatim>\<open>\s*\<close> first takes the whole run of white
  space that follows and then gives code units back until the next one is a line feed, so a
  match ends just after the last line feed of that run. \<open>lastNewlineEnd\<close> is the length
  of the part of the run that the match consumes.
\<close>

definition lastNewlineEnd :: "jsstring \<Rightarrow> nat" where
  "lastNewlineEnd run = length run - length (takeWhile (\<lambda>x. x \<noteq> 10) (rev run))"

fun splitParagraphs_from :: "jsstring \<Rightarrow> jsstring \<Rightarrow> jsstring list" where
  "splitParagraphs_from cur [] = [cur]"
| "splitParagraphs_from cur (c # cs) =
     (if c = 10 \<and> 10 \<in> set (takeWhile isWhiteSpace cs)
      then cur # splitParagraphs_from [] (drop (lastNewlineEnd (takeWhile isWhiteSpace cs)) cs)
      else splitParagraphs_from (cur @ [c]) cs)"

definition splitParagraphs :: "jsstring \<Rightarrow> jsstring list" where
  "splitParagraphs s = splitParagraphs_from [] s"

text \<open>
  \<^verbatim>\<open>Number.prototype.toString\<close> of an integer, which is how a template literal prints an
  index or a clock reading.
\<close>

function decimal :: "int \<Rightarrow> jsstring" where
  "decimal n =
     (if n < 0 then 45 # decimal (- n)
      else if n < 10 then [48 + n]
      else decimal (n div 10) @ [48 + n mod 10])"
  by pat_completeness auto
termination
  by (relation "measure (\<lambda>n. if n < 0 then nat (- n) + 1 else nat n)") auto

declare decimal.simps [simp del]

section \<open>TextChunker (textChunker.js)\<close>

text \<open>
  \<^verbatim>\<open>estimateTokenCount\<close>: \<^verbatim>\<open>Math.ceil(text.split(/\s+/).length / 0.75)\<close>. The divisor is
  a double that is exact, the quotient is the double nearest to \<open>4 w / 3\<close>, and for every
  word count a string can have that double lies strictly between the same two integers as
  \<open>4 w / 3\<close> itself (or is that integer), so the result is the integer \<open>\<lceil>4 w / 3\<rceil>\<close>.
\<close>

definition estimateTokenCount :: "jsstring \<Rightarrow> int" where
  "estimateTokenCount text =
     (let words = int (length (splitWhitespace text)) in (4 * words + 2) div 3)"

text \<open>
  The header test of \<^verbatim>\<open>semanticChunking\<close>, on the paragraph as split (not trimmed):
  \<^verbatim>\<open>/^(#{1,6}.*|[A-Z][^.]*:|\d+\.\s*[A-Z].*)/\<close>. Only whether it matches is used.
  First alternative: a leading \<^verbatim>\<open>#\<close>. Second: a capital letter, then a colon with no full
  stop before it. Third: the leading digits, a full stop, optional white space, a capital.
\<close>

definition isHeader :: "jsstring \<Rightarrow> bool" where
  "isHeader p =
     (case p of
        [] \<Rightarrow> False
      | c # cs \<Rightarrow>
          c = 35
          \<or> (isUpper c \<and> 58 \<in> set (takeWhile (\<lambda>x. x \<noteq> 46) cs))
          \<or> (isDigit c \<and>
               (case dropWhile isDigit cs of
                  [] \<Rightarrow> False
                | d # ds \<Rightarrow> d = 46 \<and>
                    (case dropWhile isWhiteSpace ds of [] \<Rightarrow> False | u # _ \<Rightarrow> isUpper u))))"

abbreviation blankLine :: jsstring where
  "blankLine \<equiv> [10, 10]"

abbreviation space :: jsstring where
  "space \<equiv> [32]"

text \<open>
  The body of the loop of \<^verbatim>\<open>semanticChunking\<close> over the paragraphs; \<open>chunks\<close> is
  the array the loop builds.
\<close>

definition semanticChunking_step :: "jsstring list \<Rightarrow> jsstring \<Rightarrow> jsstring list" where
  "semanticChunking_step chunks paragraph =
     (if trim paragraph = [] then chunks
      else if isHeader paragraph \<and> chunks \<noteq> [] then chunks @ [trim paragraph]
      else if chunks \<noteq> [] then butlast chunks @ [last chunks @ blankLine @ trim paragraph]
      else chunks @ [trim paragraph])"

definition semanticChunking :: "jsstring \<Rightarrow> jsstring list" where
  "semanticChunking text =
     filter (\<lambda>chunk. length chunk > 0) (foldl semanticChunking_step [] (splitParagraphs text))"

text \<open>
  \<^verbatim>\<open>Config.CHUNK_CONFIG\<close>: each field is \<^verbatim>\<open>parseInt(process.env.X) || default\<close>, so it is an
  integer, and the default replaces a value that is missing, not a number, or zero.
  \<open>None\<close> stands for a variable that is unset or does not parse.
\<close>

record chunkConfig =
  maxTokens :: int
  overlap :: int
  minTokens :: int

definition orDefault :: "int option \<Rightarrow> int \<Rightarrow> int" where
  "orDefault v d = (case v of None \<Rightarrow> d | Some n \<Rightarrow> if n = 0 then d else n)"

definition CHUNK_CONFIG :: "int option \<Rightarrow> int option \<Rightarrow> int option \<Rightarrow> chunkConfig" where
  "CHUNK_CONFIG envMaxTokens envOverlap envMinTokens =
     \<lparr> maxTokens = orDefault envMaxTokens 500,
       overlap = orDefault envOverlap 50,
       minTokens = orDefault envMinTokens 50 \<rparr>"

text \<open>\<^verbatim>\<open>Math.ceil(overlap / 10)\<close> for an integer \<open>overlap\<close>.\<close>

definition ceilTenth :: "int \<Rightarrow> int" where
  "ceilTenth n = - ((- n) div 10)"

text \<open>
  \<^verbatim>\<open>splitLargeChunk\<close>: the state of the loop over the sentences is its three variables
  \<open>(chunks, currentChunk, overlapBuffer)\<close>. \<open>pushChunk\<close> is the push that the loop body and
  the code after the loop share; \<open>splitLargeChunk_step\<close> is the loop body. An empty string
  is falsy.
\<close>

type_synonym splitState = "jsstring list \<times> jsstring \<times> jsstring"

fun pushChunk :: "splitState \<Rightarrow> jsstring list" where
  "pushChunk (chunks, currentChunk, overlapBuffer) =
     (if overlapBuffer \<noteq> [] then chunks @ [overlapBuffer @ space @ currentChunk]
      else chunks @ [currentChunk])"

fun splitLargeChunk_step :: "int \<Rightarrow> int \<Rightarrow> splitState \<Rightarrow> jsstring \<Rightarrow> splitState" where
  "splitLargeChunk_step maxT ov (chunks, currentChunk, overlapBuffer) sentence =
     (let testChunk = currentChunk @ (if currentChunk \<noteq> [] then space else []) @ sentence in
      if estimateTokenCount testChunk > maxT \<and> currentChunk \<noteq> []
      then (pushChunk (chunks, currentChunk, overlapBuffer),
            sentence,
            join space (sliceFrom (- ceilTenth ov) (splitSentences currentChunk)))
      else (chunks, testChunk, overlapBuffer))"

fun splitLargeChunk_finish :: "splitState \<Rightarrow> jsstring list" where
  "splitLargeChunk_finish (chunks, currentChunk, overlapBuffer) =
     (if currentChunk \<noteq> [] then pushChunk (chunks, currentChunk, overlapBuffer) else chunks)"

definition splitLargeChunk :: "jsstring \<Rightarrow> int \<Rightarrow> int \<Rightarrow> jsstring list" where
  "splitLargeChunk chunk maxT ov =
     splitLargeChunk_finish
       (foldl (splitLargeChunk_step maxT ov) ([], [], []) (splitSentences chunk))"

text \<open>
  \<^verbatim>\<open>optimizeChunkSizes\<close>: the body of the loop over the chunks; \<open>optimized\<close> is the array
  the loop builds.
\<close>

definition optimizeChunkSizes_step ::
  "chunkConfig \<Rightarrow> jsstring list \<Rightarrow> jsstring \<Rightarrow> jsstring list" where
  "optimizeChunkSizes_step cfg optimized chunk =
     (let tokenCount = estimateTokenCount chunk in
      if tokenCount \<le> maxTokens cfg \<and> tokenCount \<ge> minTokens cfg
        then optimized @ [chunk]
      else if tokenCount > maxTokens cfg
        then optimized @ splitLargeChunk chunk (maxTokens cfg) (overlap cfg)
      else if tokenCount < minTokens cfg \<and> optimized \<noteq> []
        then (let lastChunk = last optimized;
                  mergedTokenCount = estimateTokenCount (lastChunk @ blankLine @ chunk) in
              if mergedTokenCount \<le> maxTokens cfg
                then optimized[length optimized - 1 := lastChunk @ blankLine @ chunk]
              else optimized @ [chunk])
      else optimized @ [chunk])"

definition optimizeChunkSizes :: "chunkConfig \<Rightarrow> jsstring list \<Rightarrow> jsstring list" where
  "optimizeChunkSizes cfg chunks = foldl (optimizeChunkSizes_step cfg) [] chunks"

text \<open>
  A chunk with its metadata, as \<^verbatim>\<open>addMetadata\<close> builds it. The field \<^verbatim>\<open>pageNumber\<close> is
  a floating-point estimate (two divisions of doubles and a ceiling) that nothing below is
  about; it is not part of the record.
\<close>

record chunk =
  content :: jsstring
  index :: nat
  tokenCount :: int
  chunkId :: jsstring

text \<open>
  \<^verbatim>\<open>addMetadata\<close>. The chunk id is the template \<^verbatim>\<open>chunk_${index}_${Date.now()}\<close>:
  \<open>clock i\<close> is the reading of the system clock (milliseconds) that \<^verbatim>\<open>Date.now()\<close>
  returns when the chunk at index \<open>i\<close> is built.
\<close>

definition addMetadata :: "(nat \<Rightarrow> int) \<Rightarrow> jsstring list \<Rightarrow> int \<Rightarrow> chunk list" where
  "addMetadata clock chunks pageCount =
     map (\<lambda>(chunk, i).
            \<lparr> content = chunk,
              index = i,
              tokenCount = estimateTokenCount chunk,
              chunkId = utf16 ''chunk_'' @ decimal (int i) @ utf16 ''_'' @ decimal (clock i) \<rparr>)
         (zip chunks [0 ..< length chunks])"

text \<open>
  The language model behind \<^verbatim>\<open>LLMService\<close> is outside the program: whether a client
  exists (\<^verbatim>\<open>isAvailable\<close>), what \<^verbatim>\<open>generateResponse\<close> answers to the validation prompt
  of a batch (the prompt is a function of the batch) or that it throws, and whether
  \<^verbatim>\<open>JSON.parse\<close> accepts the answer and finds an array under \<^verbatim>\<open>chunks\<close>.
\<close>

datatype error = Error jsstring

record llmService =
  isAvailable :: bool
  generateResponse :: "chunk list \<Rightarrow> error + jsstring"
  parseValidation :: "jsstring \<Rightarrow> error + bool"

text \<open>
  \<^verbatim>\<open>applyValidationResults\<close>: a response that does not parse is caught, one without an
  array of suggestions is ignored, and the suggestions of any other are only logged.
\<close>

definition applyValidationResults :: "llmService \<Rightarrow> chunk list \<Rightarrow> jsstring \<Rightarrow> chunk list" where
  "applyValidationResults llm batch validationResponse =
     (case parseValidation llm validationResponse of
        Inl e \<Rightarrow> batch
      | Inr hasSuggestions \<Rightarrow> if \<not> hasSuggestions then batch else batch)"

definition validateChunkBatch :: "llmService \<Rightarrow> chunk list \<Rightarrow> chunk list" where
  "validateChunkBatch llm batch =
     (case generateResponse llm batch of
        Inl e \<Rightarrow> batch
      | Inr response \<Rightarrow> applyValidationResults llm batch response)"

text \<open>\<^verbatim>\<open>validateChunks\<close>: batches of five, \<^verbatim>\<open>chunks.slice(i, i + 5)\<close> for \<open>i = 0, 5, ...\<close>\<close>

function validateChunks :: "llmService \<Rightarrow> chunk list \<Rightarrow> chunk list" where
  "validateChunks llm cs =
     (if cs = [] then []
      else validateChunkBatch llm (take 5 cs) @ validateChunks llm (drop 5 cs))"
  by pat_completeness auto
termination
  by (relation "measure (\<lambda>(llm, cs). length cs)") auto

declare validateChunks.simps [simp del]

text \<open>
  \<^verbatim>\<open>createChunks\<close>. The promise it returns is fulfilled (\<open>Inr\<close>) or rejected (\<open>Inl\<close>);
  the \<^verbatim>\<open>catch\<close> block only logs and throws again.
\<close>

definition createChunks ::
  "chunkConfig \<Rightarrow> llmService \<Rightarrow> (nat \<Rightarrow> int) \<Rightarrow> jsstring \<Rightarrow> int \<Rightarrow> error + chunk list" where
  "createChunks cfg llm clock text pageCount =
     (let initialChunks = semanticChunking text;
          optimizedChunks = optimizeChunkSizes cfg initialChunks;
          chunksWithMetadata = addMetadata clock optimizedChunks pageCount
      in if isAvailable llm then Inr (validateChunks llm chunksWithMetadata)
         else Inr chunksWithMetadata)"

section \<open>TextProcessor.basicTextCleaning (textProcessor.js)\<close>

text \<open>
  Each \<^verbatim>\<open>replace\<close> with a global regular expression scans the string from left to right,
  replaces a match and goes on after it, and copies a code unit where there is no match.
\<close>

text \<open>\<^verbatim>\<open>.replace(/\f/g, '')\<close>\<close>

definition removeFormFeeds :: "jsstring \<Rightarrow> jsstring" where
  "removeFormFeeds s = filter (\<lambda>c. c \<noteq> 12) s"

text \<open>\<^verbatim>\<open>.replace(/\r\n|\r/g, '\n')\<close>\<close>

fun normalizeLineEndings :: "jsstring \<Rightarrow> jsstring" where
  "normalizeLineEndings [] = []"
| "normalizeLineEndings (c # cs) =
     (if c = 13
      then 10 # normalizeLineEndings (if cs \<noteq> [] \<and> hd cs = 10 then tl cs else cs)
      else c # normalizeLineEndings cs)"

text \<open>\<^verbatim>\<open>.replace(/[ \t]+/g, ' ')\<close>\<close>

definition isBlank :: "jschar \<Rightarrow> bool" where
  "isBlank c \<longleftrightarrow> c = 32 \<or> c = 9"

fun collapseBlanks :: "jsstring \<Rightarrow> jsstring" where
  "collapseBlanks [] = []"
| "collapseBlanks (c # cs) =
     (if isBlank c then 32 # collapseBlanks (dropWhile isBlank cs)
      else c # collapseBlanks cs)"

text \<open>\<^verbatim>\<open>.replace(/\n{3,}/g, '\n\n')\<close>\<close>

fun normalizeBlankLines :: "jsstring \<Rightarrow> jsstring" where
  "normalizeBlankLines [] = []"
| "normalizeBlankLines (c # cs) =
     (if c = 10 \<and> length (takeWhile (\<lambda>x. x = 10) cs) \<ge> 2
      then 10 # 10 # normalizeBlankLines (dropWhile (\<lambda>x. x = 10) cs)
      else c # normalizeBlankLines cs)"

text \<open>
  The bullet rule: the pattern in the file is the three code units U+00E2 U+20AC U+00A2
  (a bullet whose UTF-8 bytes were read as Windows-1252), replaced by \<^verbatim>\<open>'- '\<close>.
\<close>

fun replaceBullets :: "jsstring \<Rightarrow> jsstring" where
  "replaceBullets [] = []"
| "replaceBullets (c # cs) =
     (if c = 226 \<and> take 2 cs = [8364, 162] then 45 # 32 # replaceBullets (drop 2 cs)
      else c # replaceBullets cs)"

text \<open>
  \<^verbatim>\<open>.replace(/\b(\d+)\s*\.\s*(\d+)\b/g, '$1.$2')\<close>. \<open>splitNumberMatch\<close> tries the pattern
  after its first \<^verbatim>\<open>\b\<close> at the head of a string and returns the replacement and the
  rest of the string: every quantifier takes its whole run, because giving a code unit back
  never lets the next item match. \<open>prev\<close> is the code unit before the position, which
  decides the first \<^verbatim>\<open>\b\<close>.
\<close>

definition splitNumberMatch :: "jsstring \<Rightarrow> (jsstring \<times> jsstring) option" where
  "splitNumberMatch s =
     (let d1 = takeWhile isDigit s;
          r1 = dropWhile isWhiteSpace (dropWhile isDigit s)
      in if d1 = [] \<or> r1 = [] \<or> hd r1 \<noteq> 46 then None
         else (let r2 = dropWhile isWhiteSpace (tl r1);
                   d2 = takeWhile isDigit r2;
                   r3 = dropWhile isDigit r2
               in if d2 = [] \<or> (r3 \<noteq> [] \<and> isWordChar (hd r3)) then None
                  else Some (d1 @ [46] @ d2, r3)))"

lemma splitNumberMatch_shorter:
  assumes "splitNumberMatch s = Some (rep, rest)"
  shows "length rest < length s"
proof -
  let ?r1 = "dropWhile isWhiteSpace (dropWhile isDigit s)"
  let ?r2 = "dropWhile isWhiteSpace (tl ?r1)"
  from assms have r1: "?r1 \<noteq> []" and rest: "rest = dropWhile isDigit ?r2"
    by (auto simp: splitNumberMatch_def Let_def split: if_splits)
  have "length rest \<le> length ?r2"
    unfolding rest by (rule length_dropWhile_le)
  also have "\<dots> \<le> length (tl ?r1)"
    by (rule length_dropWhile_le)
  also have "\<dots> < length ?r1"
    using r1 by (cases ?r1) auto
  also have "\<dots> \<le> length (dropWhile isDigit s)"
    by (rule length_dropWhile_le)
  also have "\<dots> \<le> length s"
    by (rule length_dropWhile_le)
  finally show ?thesis .
qed

function fixSplitNumbers :: "jschar option \<Rightarrow> jsstring \<Rightarrow> jsstring" where
  "fixSplitNumbers prev [] = []"
| "fixSplitNumbers prev (c # cs) =
     (if (case prev of None \<Rightarrow> True | Some p \<Rightarrow> \<not> isWordChar p)
         \<and> splitNumberMatch (c # cs) \<noteq> None
      then fst (the (splitNumberMatch (c # cs)))
           @ fixSplitNumbers (Some (last (fst (the (splitNumberMatch (c # cs))))))
               (snd (the (splitNumberMatch (c # cs))))
      else c # fixSplitNumbers (Some c) cs)"
  by pat_completeness auto
termination
proof (relation "measure (\<lambda>(prev, s). length s)")
  fix prev :: "jschar option" and c :: jschar and cs :: jsstring
  assume "(case prev of None \<Rightarrow> True | Some p \<Rightarrow> \<not> isWordChar p)
          \<and> splitNumberMatch (c # cs) \<noteq> None"
  then obtain rep rest where m: "splitNumberMatch (c # cs) = Some (rep, rest)"
    by auto
  from splitNumberMatch_shorter [OF m] m
  show "((Some (last (fst (the (splitNumberMatch (c # cs))))),
          snd (the (splitNumberMatch (c # cs)))), prev, c # cs)
        \<in> measure (\<lambda>(prev, s). length s)"
    by simp
qed auto

text \<open>\<^verbatim>\<open>.replace(/([a-z])([A-Z])/g, '$1 $2')\<close>\<close>

fun spaceLowerUpper :: "jsstring \<Rightarrow> jsstring" where
  "spaceLowerUpper [] = []"
| "spaceLowerUpper (c # cs) =
     (if isLower c \<and> cs \<noteq> [] \<and> isUpper (hd cs)
      then c # 32 # hd cs # spaceLowerUpper (tl cs)
      else c # spaceLowerUpper cs)"

text \<open>\<^verbatim>\<open>.replace(/\s+([,.;:!?])/g, '$1')\<close>\<close>

fun removeSpaceBeforePunct :: "jsstring \<Rightarrow> jsstring" where
  "removeSpaceBeforePunct [] = []"
| "removeSpaceBeforePunct (c # cs) =
     (if isWhiteSpace c \<and> dropWhile isWhiteSpace cs \<noteq> []
         \<and> isPunct (hd (dropWhile isWhiteSpace cs))
      then hd (dropWhile isWhiteSpace cs)
           # removeSpaceBeforePunct (tl (dropWhile isWhiteSpace cs))
      else c # removeSpaceBeforePunct cs)"

text \<open>\<^verbatim>\<open>.replace(/([,.;:!?])\s+/g, '$1 ')\<close>\<close>

fun singleSpaceAfterPunct :: "jsstring \<Rightarrow> jsstring" where
  "singleSpaceAfterPunct [] = []"
| "singleSpaceAfterPunct (c # cs) =
     (if isPunct c \<and> cs \<noteq> [] \<and> isWhiteSpace (hd cs)
      then c # 32 # singleSpaceAfterPunct (dropWhile isWhiteSpace cs)
      else c # singleSpaceAfterPunct cs)"

text \<open>\<^verbatim>\<open>.replace(/\s+/g, ' ')\<close>\<close>

fun collapseWhitespace :: "jsstring \<Rightarrow> jsstring" where
  "collapseWhitespace [] = []"
| "collapseWhitespace (c # cs) =
     (if isWhiteSpace c then 32 # collapseWhitespace (dropWhile isWhiteSpace cs)
      else c # collapseWhitespace cs)"

text \<open>\<^verbatim>\<open>basicTextCleaning\<close>: the chain of replacements, in the order of the source.\<close>

definition basicTextCleaning :: "jsstring \<Rightarrow> jsstring" where
  "basicTextCleaning text =
     (if text = [] then []
      else collapseWhitespace
            (trim
              (singleSpaceAfterPunct
                (removeSpaceBeforePunct
                  (spaceLowerUpper
                    (fixSplitNumbers None
                      (replaceBullets
                        (normalizeBlankLines
                          (collapseBlanks
                            (normalizeLineEndings
                              (removeFormFeeds text)))))))))))"

section \<open>EmbeddingService of modules/embedding: role prefixes and truncation\<close>

text \<open>\<^verbatim>\<open>Config.EMBEDDING_MODEL\<close>\<close>

record embeddingModel =
  modelName :: jsstring
  dimensions :: nat
  modelMaxTokens :: int
  prefixQuery :: jsstring
  prefixPassage :: jsstring

definition EMBEDDING_MODEL :: embeddingModel where
  "EMBEDDING_MODEL =
     \<lparr> modelName = utf16 ''intfloat/e5-small-v2'',
       dimensions = 384,
       modelMaxTokens = 512,
       prefixQuery = utf16 ''query: '',
       prefixPassage = utf16 ''passage: '' \<rparr>"

text \<open>
  \<^verbatim>\<open>prepareTextForEmbedding\<close>, which \<^verbatim>\<open>processBatch\<close> applies to the content of every chunk.
  \<^verbatim>\<open>substring(0, maxLength)\<close> keeps the first \<open>maxLength\<close> code units.
\<close>

definition prepareTextForEmbedding :: "embeddingModel \<Rightarrow> jsstring \<Rightarrow> jsstring" where
  "prepareTextForEmbedding config text =
     (let prefix = prefixPassage config;
          maxLength = modelMaxTokens config * 4;
          truncatedText = (if int (length text) > maxLength then take (nat maxLength) text
                           else text)
      in prefix @ truncatedText)"

text \<open>
  \<^verbatim>\<open>generateQueryEmbedding\<close>: \<open>preparedQuery\<close> is its local constant of that name. The
  provider (\<^verbatim>\<open>llmService.createEmbeddings\<close>; the constructor fixes
  \<^verbatim>\<open>useOpenAIFallback = true\<close>) receives the list of texts and answers with one vector for
  each or throws; reading the length of a missing first vector is a \<^verbatim>\<open>TypeError\<close>. Every
  error is thrown again.
\<close>

type_synonym vector = "real list"

definition preparedQuery :: "embeddingModel \<Rightarrow> jsstring \<Rightarrow> jsstring" where
  "preparedQuery config query = prefixQuery config @ query"

definition E5_generateQueryEmbedding ::
  "embeddingModel \<Rightarrow> (jsstring list \<Rightarrow> error + vector list) \<Rightarrow> jsstring \<Rightarrow> error + vector" where
  "E5_generateQueryEmbedding config createEmbeddings query =
     (case createEmbeddings [preparedQuery config query] of
        Inl e \<Rightarrow> Inl e
      | Inr embeddings \<Rightarrow>
          (case embeddings of
             [] \<Rightarrow> Inl (Error (utf16 ''TypeError''))
           | embedding # _ \<Rightarrow> Inr embedding))"

section \<open>JavaScript numbers\<close>

text \<open>
  A JavaScript number is an IEEE 754 binary64 double; a double is represented here by the
  real it denotes. \<open>toDouble x\<close> is the double nearest to \<open>x\<close>, the one with the even
  significand when two are equally near: that is the value of a numeric literal and the
  result of each arithmetic operation on doubles. \<open>roundSignificand\<close> scales a positive
  \<open>x\<close> by powers of two into \<open>[2\<^sup>5\<^sup>2, 2\<^sup>5\<^sup>3)\<close>, rounds it to an integer there
  (\<open>roundTiesToEven\<close>) and scales back; \<open>fuel\<close> bounds the number of scaling steps. This
  is the rounding for the normal range of the format, in which the literals and the scores
  of the services below lie; overflow and the subnormal numbers are not represented.
\<close>

definition roundTiesToEven :: "real \<Rightarrow> int" where
  "roundTiesToEven x =
     (let f = \<lfloor>x\<rfloor> in
      if x - of_int f < 1 / 2 then f
      else if 1 / 2 < x - of_int f then f + 1
      else if even f then f else f + 1)"

fun roundSignificand :: "nat \<Rightarrow> real \<Rightarrow> real" where
  "roundSignificand 0 x = of_int (roundTiesToEven x)"
| "roundSignificand (Suc fuel) x =
     (if x < 2 ^ 52 then roundSignificand fuel (2 * x) / 2
      else if 2 ^ 53 \<le> x then roundSignificand fuel (x / 2) * 2
      else of_int (roundTiesToEven x))"

definition toDouble :: "real \<Rightarrow> real" where
  "toDouble x =
     (if x < 0 then - roundSignificand 1100 (- x)
      else if x = 0 then 0
      else roundSignificand 1100 x)"

section \<open>The python\_bridge services with mock support\<close>

text \<open>
  Both classes set \<^verbatim>\<open>mockMode = (process.env.OPENAI_API_KEY === 'mock')\<close> in the constructor
  and call a Python script through the bridge; the script is outside the program, so its
  outcome is a parameter: it throws (\<open>Inl\<close>) or returns a parsed object, of which the
  code reads one field (\<open>None\<close> when the field is missing or falsy).
\<close>

text \<open>
  \<^verbatim>\<open>_generateMockEmbedding\<close>: 384 values of \<^verbatim>\<open>Math.random() * 2 - 1\<close>, divided by their
  Euclidean norm. \<open>random i\<close> is the \<open>i\<close>-th value that \<^verbatim>\<open>Math.random()\<close> returns during
  the call of the service method, \<open>pos\<close> the number of values already drawn; real
  arithmetic stands for the doubles.
\<close>

definition generateMockEmbedding :: "(nat \<Rightarrow> real) \<Rightarrow> nat \<Rightarrow> vector" where
  "generateMockEmbedding random pos =
     (let embedding = map (\<lambda>i. random (pos + i) * 2 - 1) [0 ..< 384];
          magnitude = sqrt (foldl (\<lambda>sum val. sum + val * val) 0 embedding)
      in map (\<lambda>val. val / magnitude) embedding)"

text \<open>
  \<^verbatim>\<open>chunks.map(chunk => ({...chunk, embedding: this._generateMockEmbedding()}))\<close>, which
  \<^verbatim>\<open>generateChunkEmbeddings\<close> has twice. A chunk with its embedding is a pair; the second
  component is \<open>None\<close> for a chunk that has no \<^verbatim>\<open>embedding\<close> field.
\<close>

fun withMockEmbeddings :: "(nat \<Rightarrow> real) \<Rightarrow> nat \<Rightarrow> 'c list \<Rightarrow> ('c \<times> vector option) list" where
  "withMockEmbeddings random pos [] = []"
| "withMockEmbeddings random pos (chunk # rest) =
     (chunk, Some (generateMockEmbedding random pos))
     # withMockEmbeddings random (pos + 384) rest"

text \<open>\<^verbatim>\<open>EmbeddingService.generateChunkEmbeddings\<close>; the field read is \<^verbatim>\<open>result.embeddings\<close>.\<close>

definition generateChunkEmbeddings ::
  "bool \<Rightarrow> ('c list \<Rightarrow> error + ('c \<times> vector option) list option) \<Rightarrow> (nat \<Rightarrow> real) \<Rightarrow> 'c list
     \<Rightarrow> error + ('c \<times> vector option) list" where
  "generateChunkEmbeddings mockMode script random chunks =
     (if mockMode then Inr (withMockEmbeddings random 0 chunks)
      else (case script chunks of
              Inr result \<Rightarrow>
                Inr (case result of
                       Some embeddings \<Rightarrow> embeddings
                     | None \<Rightarrow> map (\<lambda>chunk. (chunk, None)) chunks)
            | Inl err \<Rightarrow> Inr (withMockEmbeddings random 0 chunks)))"

text \<open>\<^verbatim>\<open>EmbeddingService.generateQueryEmbedding\<close>; the field read is \<^verbatim>\<open>result.embedding\<close>.\<close>

definition generateQueryEmbedding ::
  "bool \<Rightarrow> (jsstring \<Rightarrow> error + vector option) \<Rightarrow> (nat \<Rightarrow> real) \<Rightarrow> jsstring \<Rightarrow> error + vector" where
  "generateQueryEmbedding mockMode script random query =
     (if mockMode then Inr (generateMockEmbedding random 0)
      else (case script query of
              Inr result \<Rightarrow>
                Inr (case result of
                       Some embedding \<Rightarrow> embedding
                     | None \<Rightarrow> generateMockEmbedding random 0)
            | Inl err \<Rightarrow> Inr (generateMockEmbedding random 0)))"

text \<open>A search result as the Python search script and the mock return it.\<close>

record searchResult =
  result_id :: jsstring
  score :: real
  result_content :: jsstring
  page_number :: int
  document_id :: jsstring
  result_index :: nat

definition mockContent :: "jsstring list" where
  "mockContent =
     [utf16 ''Artificial Intelligence (AI) is the simulation of human intelligence processes by machines, especially computer systems.'',
      utf16 ''Machine Learning is a subset of AI that enables systems to learn and improve from experience without being explicitly programmed.'',
      utf16 ''Deep Learning is a subset of machine learning that uses neural networks with multiple layers.'',
      utf16 ''Natural Language Processing enables computers to understand, interpret, and generate human language.'',
      utf16 ''Computer Vision is a field of AI that enables computers to derive meaningful information from digital images.'',
      utf16 ''Neural Networks are computing systems inspired by the biological neural networks that constitute animal brains.'',
      utf16 ''Reinforcement Learning is an area of machine learning where agents learn to make decisions by taking actions.'',
      utf16 ''Supervised Learning is a type of machine learning where the model is trained on labeled data.'']"

text \<open>
  \<^verbatim>\<open>_getMockSearchResults\<close>: one result for each \<open>i < Math.min(topK, 8)\<close>. A document id
  that is \<^verbatim>\<open>null\<close> (\<open>None\<close>) or empty is falsy. The score \<^verbatim>\<open>0.95 - (i * 0.05)\<close> is
  computed in doubles: both literals, the product and the difference are rounded.
\<close>

definition getMockSearchResults :: "jsstring option \<Rightarrow> int \<Rightarrow> searchResult list" where
  "getMockSearchResults documentId topK =
     map (\<lambda>i. \<lparr> result_id = utf16 ''mock_chunk_'' @ decimal (int i),
                score = toDouble (toDouble 0.95 - toDouble (real i * toDouble 0.05)),
                result_content = mockContent ! i,
                page_number = int (i div 2) + 1,
                document_id = (case documentId of
                                 None \<Rightarrow> utf16 ''mock_doc''
                               | Some d \<Rightarrow> if d \<noteq> [] then d else utf16 ''mock_doc''),
                result_index = i \<rparr>)
         [0 ..< nat (min topK (int (length mockContent)))]"

text \<open>The arguments handed to the search script.\<close>

datatype arg = Command string | Flag string | Json vector | Str jsstring | Num real

text \<open>
  The array \<^verbatim>\<open>args\<close> that \<^verbatim>\<open>searchSimilarChunks\<close> builds: the query vector and
  \<^verbatim>\<open>--top-k\<close> always, \<^verbatim>\<open>--doc-id\<close> for a document id that is truthy, \<^verbatim>\<open>--threshold\<close>
  only for a threshold above 0.
\<close>

definition searchArgs :: "vector \<Rightarrow> jsstring option \<Rightarrow> int \<Rightarrow> real \<Rightarrow> arg list" where
  "searchArgs queryEmbedding documentId topK scoreThreshold =
     [Json queryEmbedding, Flag ''--top-k'', Num (real_of_int topK)]
     @ (case documentId of
          None \<Rightarrow> []
        | Some d \<Rightarrow> if d \<noteq> [] then [Flag ''--doc-id'', Str d] else [])
     @ (if scoreThreshold > 0 then [Flag ''--threshold'', Num scoreThreshold] else [])"

text \<open>
  \<^verbatim>\<open>VectorSearchService.searchSimilarChunks(queryEmbedding, documentId = null, topK = 5,
  scoreThreshold = 0.0)\<close>: an argument that is \<open>None\<close> takes its default. The field read
  from the script's answer is \<^verbatim>\<open>result.results\<close>.
\<close>

definition searchSimilarChunks ::
  "bool \<Rightarrow> (arg list \<Rightarrow> error + searchResult list option) \<Rightarrow> vector \<Rightarrow> jsstring option
     \<Rightarrow> int option \<Rightarrow> real option \<Rightarrow> error + searchResult list" where
  "searchSimilarChunks mockMode script queryEmbedding documentId topKArg scoreThresholdArg =
     (let topK = (case topKArg of None \<Rightarrow> 5 | Some k \<Rightarrow> k);
          scoreThreshold = (case scoreThresholdArg of None \<Rightarrow> 0 | Some t \<Rightarrow> t)
      in if mockMode then Inr (getMockSearchResults documentId topK)
         else (case script (Command ''search''
                            # searchArgs queryEmbedding documentId topK scoreThreshold) of
                 Inr result \<Rightarrow> Inr (case result of Some results \<Rightarrow> results | None \<Rightarrow> [])
               | Inl err \<Rightarrow> Inr (getMockSearchResults documentId topK)))"

section \<open>VectorDatabaseService.searchSimilar (Qdrant client)\<close>

text \<open>
  The request \<^verbatim>\<open>client.search\<close> receives and a hit it returns; the Qdrant server is outside
  the program, so the client is a parameter that answers a request with hits or throws.
\<close>

record 'f searchRequest =
  request_vector :: vector
  limit :: int
  score_threshold :: real
  request_filter :: "'f option"
  with_payload :: bool
  with_vector :: bool

record 'p hit =
  hit_id :: jsstring
  hit_score :: real
  hit_payload :: 'p
  hit_vector :: "vector option"

text \<open>The \<^verbatim>\<open>options\<close> object: a field that is absent (\<open>None\<close>) takes its default.\<close>

record 'f searchOptions =
  opt_limit :: "int option"
  opt_scoreThreshold :: "real option"
  opt_filter :: "'f option"
  opt_withEmbedding :: "bool option"

definition searchSimilar ::
  "('f searchRequest \<Rightarrow> error + 'p hit list) \<Rightarrow> vector \<Rightarrow> 'f searchOptions \<Rightarrow> error + 'p hit list" where
  "searchSimilar client queryVector options =
     (let limit = (case opt_limit options of None \<Rightarrow> 10 | Some l \<Rightarrow> l);
          scoreThreshold = (case opt_scoreThreshold options of
                              None \<Rightarrow> toDouble 0.7 | Some t \<Rightarrow> t);
          withEmbedding = (case opt_withEmbedding options of None \<Rightarrow> False | Some w \<Rightarrow> w)
      in case client \<lparr> request_vector = queryVector,
                        limit = limit,
                        score_threshold = scoreThreshold,
                        request_filter = opt_filter options,
                        with_payload = True,
                        with_vector = withEmbedding \<rparr> of
           Inl e \<Rightarrow> Inl e
         | Inr searchResult \<Rightarrow>
             Inr (map (\<lambda>h. \<lparr> hit_id = hit_id h, hit_score = hit_score h,
                              hit_payload = hit_payload h, hit_vector = hit_vector h \<rparr>)
                      searchResult))"

section \<open>QuizGenerationService: retrieval of the content for a quiz\<close>

text \<open>
  \<^verbatim>\<open>_removeDuplicateChunks\<close>: the filter with the set \<open>seen\<close> of the ids met so far.
\<close>

fun removeDuplicateChunks_from :: "jsstring set \<Rightarrow> searchResult list \<Rightarrow> searchResult list" where
  "removeDuplicateChunks_from seen [] = []"
| "removeDuplicateChunks_from seen (chunk # rest) =
     (if result_id chunk \<in> seen then removeDuplicateChunks_from seen rest
      else chunk # removeDuplicateChunks_from (insert (result_id chunk) seen) rest)"

definition removeDuplicateChunks :: "searchResult list \<Rightarrow> searchResult list" where
  "removeDuplicateChunks chunks = removeDuplicateChunks_from {} chunks"

definition generalQueries :: "jsstring list" where
  "generalQueries =
     [utf16 ''important concepts and definitions'',
      utf16 ''key procedures and methods'',
      utf16 ''main principles and theories'',
      utf16 ''essential facts and information'']"

text \<open>
  The loop over the general queries: each search is awaited in turn and its results are
  appended to \<open>allChunks\<close>; a search that throws ends the loop with its error.
\<close>

fun searchAll ::
  "(jsstring \<Rightarrow> error + searchResult list) \<Rightarrow> searchResult list \<Rightarrow> jsstring list
     \<Rightarrow> error + searchResult list" where
  "searchAll search allChunks [] = Inr allChunks"
| "searchAll search allChunks (query # queries) =
     (case search query of
        Inl e \<Rightarrow> Inl e
      | Inr chunks \<Rightarrow> searchAll search (allChunks @ chunks) queries)"

text \<open>
  \<^verbatim>\<open>_getRelevantContent\<close>. \<open>searchWithQuery\<close> is the vector search of the search service
  (query embedding, then similarity search), a parameter; an empty custom query is falsy.
  \<^verbatim>\<open>Math.ceil(topK / generalQueries.length)\<close> is \<open>- ((- topK) div 4)\<close> for an integer.
\<close>

definition getRelevantContent ::
  "(jsstring \<Rightarrow> jsstring \<Rightarrow> int \<Rightarrow> error + searchResult list) \<Rightarrow> jsstring \<Rightarrow> jsstring \<Rightarrow> int
     \<Rightarrow> error + searchResult list" where
  "getRelevantContent searchWithQuery documentId customQuery topK =
     (if customQuery \<noteq> [] then searchWithQuery customQuery documentId topK
      else (case searchAll
                   (\<lambda>query. searchWithQuery query documentId
                               (- ((- topK) div int (length generalQueries))))
                   [] generalQueries of
              Inl e \<Rightarrow> Inl e
            | Inr allChunks \<Rightarrow> Inr (sliceTo topK (removeDuplicateChunks allChunks))))"

section \<open>Hybrid Retriever: the merge of the dense and the lexical result\<close>

text \<open>
  Of the retrieval, the sources hold the dense leg (\<^verbatim>\<open>_getRelevantContent\<close> calls the
  vector search and nothing else) and a compiled BM25 indexer whose \<^verbatim>\<open>search\<close> returns
  chunks with score and rank. The function that merges the results of the two legs is
  not among them, so the merge is taken from section 4.5 of the specification.
\<close>

text \<open>
  Modelled from the spec: the source method tag of a retrieval result (dense, lexical or
  both); the type is missing from the sources.
\<close>

datatype sourceMethod = Dense | Lexical | Both

text \<open>
  Modelled from the spec: the retrieval result of the data model, which is missing from
  the sources: chunk id, relevance score, rank (from 1, assigned after the final merge)
  and source method tag; \<open>ordinal\<close> is the ordinal index of the chunk, by which ties are
  broken.
\<close>

record retrievalResult =
  retrieved_id :: jsstring
  relevance :: real
  ordinal :: nat
  rank :: nat
  source :: sourceMethod

text \<open>
  Modelled from the spec: the marking step of the merge, which is missing from the
  sources. "Merge by chunk id: a chunk appearing in both result sets is marked both"; a
  chunk of both sets is kept once, with its dense score, a chunk of one set with the tag
  and the score of that set.
\<close>

definition markSource :: "retrievalResult list \<Rightarrow> retrievalResult list \<Rightarrow> retrievalResult list" where
  "markSource dense lexical =
     map (\<lambda>r. r \<lparr> source := (if retrieved_id r \<in> retrieved_id ` set lexical then Both else Dense) \<rparr>)
       dense
     @ map (\<lambda>r. r \<lparr> source := Lexical \<rparr>)
         (filter (\<lambda>r. retrieved_id r \<notin> retrieved_id ` set dense) lexical)"

text \<open>
  Modelled from the spec: the order within a tier, which is missing from the sources.
  "Within each tier, order by the originating score descending; deterministic tie-break
  by lower ordinal chunk index."
\<close>

definition ranksBefore :: "retrievalResult \<Rightarrow> retrievalResult \<Rightarrow> bool" where
  "ranksBefore a b \<longleftrightarrow>
     relevance b < relevance a \<or> (relevance a = relevance b \<and> ordinal a \<le> ordinal b)"

text \<open>
  Modelled from the spec: the sorting of a tier by that order, which is missing from the
  sources; an insertion sort.
\<close>

fun insertRanked :: "retrievalResult \<Rightarrow> retrievalResult list \<Rightarrow> retrievalResult list" where
  "insertRanked x [] = [x]"
| "insertRanked x (y # ys) = (if ranksBefore x y then x # y # ys else y # insertRanked x ys)"

text \<open>Modelled from the spec: a tier in its order; missing from the sources.\<close>

definition orderTier :: "retrievalResult list \<Rightarrow> retrievalResult list" where
  "orderTier rs = foldr insertRanked rs []"

text \<open>
  Modelled from the spec: the assignment of the ranks, which is missing from the sources.
  The rank is "1-based, assigned after final merge".
\<close>

definition assignRanks :: "retrievalResult list \<Rightarrow> retrievalResult list" where
  "assignRanks rs = map (\<lambda>i. (rs ! i) \<lparr> rank := i + 1 \<rparr>) [0 ..< length rs]"

text \<open>
  Modelled from the spec: the merge of the Hybrid Retriever, which is missing from the
  sources. A chunk of one set "is ordered after all both chunks", each tier is in its
  order, and "the final list is truncated to topK".
\<close>

definition hybridMerge ::
  "nat \<Rightarrow> retrievalResult list \<Rightarrow> retrievalResult list \<Rightarrow> retrievalResult list" where
  "hybridMerge topK dense lexical =
     (let marked = markSource dense lexical;
          both = orderTier (filter (\<lambda>r. source r = Both) marked);
          single = orderTier (filter (\<lambda>r. source r \<noteq> Both) marked)
      in assignRanks (take topK (both @ single)))"

section \<open>Notions of the properties, and example inputs\<close>

text \<open>Two neighbouring code units of a string are both white space.\<close>

fun adjacentWhiteSpace :: "jsstring \<Rightarrow> bool" where
  "adjacentWhiteSpace (a # b # cs) = ((isWhiteSpace a \<and> isWhiteSpace b) \<or> adjacentWhiteSpace (b # cs))"
| "adjacentWhiteSpace _ = False"


text \<open>A raw text with form feed, carriage returns, blank lines, a bullet and a split number.\<close>

definition exampleRawText :: jsstring where
  "exampleRawText =
     utf16 ''  Hello   World .'' @ [13, 10, 13, 10, 13, 10, 13]
     @ utf16 ''fooBar 3 . 14 ok  , z'' @ [226, 8364, 162] @ utf16 ''item '' @ [12, 9]"


text \<open>
  A vector search for the examples: it answers each general query with two results, some of
  which it also returns for another query, cut to the number requested.
\<close>

definition exampleResult :: "string \<Rightarrow> int \<Rightarrow> searchResult" where
  "exampleResult name percent =
     \<lparr> result_id = utf16 name, score = real_of_int percent / 100, result_content = utf16 name,
       page_number = 1, document_id = utf16 ''doc'', result_index = 0 \<rparr>"

definition exampleResults :: "jsstring \<Rightarrow> searchResult list" where
  "exampleResults query =
     (if query = generalQueries ! 0 then [exampleResult ''a'' 90, exampleResult ''b'' 80]
      else if query = generalQueries ! 1 then [exampleResult ''b'' 70, exampleResult ''c'' 60]
      else if query = generalQueries ! 2 then [exampleResult ''a'' 50, exampleResult ''d'' 40]
      else [exampleResult ''e'' 30, exampleResult ''f'' 20])"

definition exampleSearch :: "jsstring \<Rightarrow> jsstring \<Rightarrow> int \<Rightarrow> error + searchResult list" where
  "exampleSearch query documentId topK = Inr (sliceTo topK (exampleResults query))"

text \<open>
  Language-model services for the examples: one without a client, and one whose client
  answers every validation prompt with text that is not JSON.
\<close>

definition llmUnavailable :: llmService where
  "llmUnavailable =
     \<lparr> isAvailable = False,
       generateResponse = (\<lambda>batch. Inl (Error (utf16 ''LLM service is not available''))),
       parseValidation = (\<lambda>response. Inl (Error (utf16 ''SyntaxError''))) \<rparr>"

definition llmTalkative :: llmService where
  "llmTalkative =
     \<lparr> isAvailable = True,
       generateResponse = (\<lambda>batch. Inr (utf16 ''Looks fine to me.'')),
       parseValidation = (\<lambda>response. Inl (Error (utf16 ''SyntaxError''))) \<rparr>"

text \<open>Two runs, a millisecond apart.\<close>

definition clockA :: "nat \<Rightarrow> int" where
  "clockA i = 1716469274000"

definition clockB :: "nat \<Rightarrow> int" where
  "clockB i = 1716469274001"


definition twoParagraphs :: jsstring where
  "twoParagraphs = utf16 ''Intro one two.'' @ blankLine @ utf16 ''# Head three four''"

text \<open>
  The splitting of a large chunk as the specification words it. \<open>sentenceSpans\<close>
  accumulates sentences into a span until the estimate of the span with the next sentence
  (\<open>withSentence\<close>, a space between the two) would exceed \<open>maxTokens\<close>; \<open>cur\<close> is the
  span being accumulated, and a span takes at least one sentence. \<open>overlapWindow\<close> is the window taken from a span: its sentences from
  position \<open>- \<lceil>overlap / 10\<rceil>\<close> on, joined by single spaces. \<open>prependOverlap\<close> emits the
  spans in turn, each prefixed by the window of the span before it when that window is not
  empty; \<open>buffer\<close> is the window carried over.
\<close>

definition withSentence :: "jsstring \<Rightarrow> jsstring \<Rightarrow> jsstring" where
  "withSentence cur sentence = cur @ (if cur \<noteq> [] then space else []) @ sentence"

fun sentenceSpans :: "int \<Rightarrow> jsstring \<Rightarrow> jsstring list \<Rightarrow> jsstring list" where
  "sentenceSpans maxT cur [] = (if cur \<noteq> [] then [cur] else [])"
| "sentenceSpans maxT cur (sentence # sentences) =
     (if estimateTokenCount (withSentence cur sentence) > maxT \<and> cur \<noteq> []
      then cur # sentenceSpans maxT sentence sentences
      else sentenceSpans maxT (withSentence cur sentence) sentences)"

definition overlapWindow :: "int \<Rightarrow> jsstring \<Rightarrow> jsstring" where
  "overlapWindow ov sp = join space (sliceFrom (- ceilTenth ov) (splitSentences sp))"

fun prependOverlap :: "int \<Rightarrow> jsstring \<Rightarrow> jsstring list \<Rightarrow> jsstring list" where
  "prependOverlap ov buffer [] = []"
| "prependOverlap ov buffer (sp # rest) =
     (if buffer \<noteq> [] then buffer @ space @ sp else sp)
     # prependOverlap ov (overlapWindow ov sp) rest"

text \<open>
  Paragraphs of 225 words, which \<^verbatim>\<open>estimateTokenCount\<close> puts at 300 tokens: 45 sentences of
  five words and 25 sentences of nine words, numbered from 1.
\<close>

definition fiveWordSentence :: "nat \<Rightarrow> jsstring" where
  "fiveWordSentence i = utf16 ''s'' @ decimal (int i) @ utf16 '' b c d e.''"

definition nineWordSentence :: "nat \<Rightarrow> jsstring" where
  "nineWordSentence i = utf16 ''s'' @ decimal (int i) @ utf16 '' b c d e f g h i.''"

definition paragraph45 :: jsstring where
  "paragraph45 = join space (map fiveWordSentence [1 ..< 46])"

definition paragraph25 :: jsstring where
  "paragraph25 = join space (map nineWordSentence [1 ..< 26])"

text \<open>
  Scripts whose call fails, a script that answers without the field, and draws of
  \<^verbatim>\<open>Math.random()\<close> that are all 0.75.
\<close>

definition failingChunkScript ::
  "jsstring list \<Rightarrow> error + (jsstring \<times> vector option) list option" where
  "failingChunkScript chunks = Inl (Error (utf16 ''insufficient_quota''))"

definition failingQueryScript :: "jsstring \<Rightarrow> error + vector option" where
  "failingQueryScript query = Inl (Error (utf16 ''insufficient_quota''))"

definition failingSearchScript :: "arg list \<Rightarrow> error + searchResult list option" where
  "failingSearchScript args = Inl (Error (utf16 ''ECONNREFUSED''))"

definition constantDraws :: "nat \<Rightarrow> real" where
  "constantDraws i = 3 / 4"

text \<open>
  A search script that answers every call with the same two results, and a Qdrant client
  that holds two points, with scores 0.875 and 0.625, and honours the threshold and the
  limit of a request.
\<close>

definition answeringSearchScript :: "arg list \<Rightarrow> error + searchResult list option" where
  "answeringSearchScript args = Inr (Some [exampleResult ''a'' 90, exampleResult ''b'' 60])"

definition storedPoints :: "unit hit list" where
  "storedPoints =
     [\<lparr> hit_id = utf16 ''a'', hit_score = 7 / 8, hit_payload = (), hit_vector = None \<rparr>,
      \<lparr> hit_id = utf16 ''b'', hit_score = 5 / 8, hit_payload = (), hit_vector = None \<rparr>]"

definition thresholdClient :: "unit searchRequest \<Rightarrow> error + unit hit list" where
  "thresholdClient request =
     Inr (take (nat (limit request))
            (filter (\<lambda>h. score_threshold request \<le> hit_score h) storedPoints))"

definition defaultOptions :: "unit searchOptions" where
  "defaultOptions =
     \<lparr> opt_limit = None, opt_scoreThreshold = None, opt_filter = None,
       opt_withEmbedding = None \<rparr>"

text \<open>
  The results of the two legs for one query: the dense leg finds the chunks a, b and c,
  the lexical leg the chunks c and d.
\<close>

definition legResult :: "string \<Rightarrow> real \<Rightarrow> nat \<Rightarrow> nat \<Rightarrow> sourceMethod \<Rightarrow> retrievalResult" where
  "legResult name s i n m =
     \<lparr> retrieved_id = utf16 name, relevance = s, ordinal = i, rank = n, source = m \<rparr>"

definition denseLeg :: "retrievalResult list" where
  "denseLeg = [legResult ''a'' (7 / 8) 0 1 Dense, legResult ''b'' (3 / 4) 1 2 Dense,
               legResult ''c'' (5 / 8) 2 3 Dense]"

definition lexicalLeg :: "retrievalResult list" where
  "lexicalLeg = [legResult ''c'' 5 2 1 Lexical, legResult ''d'' 3 3 2 Lexical]"

text \<open>A provider of embeddings that rejects every call and reports the texts it was given.\<close>

definition reportingProvider :: "jsstring list \<Rightarrow> error + vector list" where
  "reportingProvider texts = Inl (Error (concat texts))"





section \<open>White space after cleaning\<close>


lemma isWhiteSpace_space: "isWhiteSpace 32"
  by (simp add: isWhiteSpace_def)

lemma isWhiteSpace_newline: "isWhiteSpace 10"
  by (simp add: isWhiteSpace_def)

lemma last_dropWhile_nonempty:
  "dropWhile P xs \<noteq> [] \<Longrightarrow> last (dropWhile P xs) = last xs"
  by (induction xs) (auto split: if_splits)

lemma trim_ends:
  assumes "trim s \<noteq> []"
  shows "\<not> isWhiteSpace (hd (trim s))" and "\<not> isWhiteSpace (last (trim s))"
proof -
  let ?t = "dropWhile isWhiteSpace s"
  let ?u = "dropWhile isWhiteSpace (rev ?t)"
  from assms have u: "?u \<noteq> []" by (simp add: trim_def)
  have t: "?t \<noteq> []"
  proof
    assume "?t = []"
    then have "?u = []" by (simp del: dropWhile_eq_Nil_conv)
    with u show False by contradiction
  qed
  have "hd (trim s) = last ?u" using u by (simp add: trim_def hd_rev)
  also have "\<dots> = last (rev ?t)" using u by (rule last_dropWhile_nonempty)
  also have "\<dots> = hd ?t" using t by (simp add: last_rev)
  finally have "hd (trim s) = hd ?t" .
  with hd_dropWhile [OF t] show "\<not> isWhiteSpace (hd (trim s))" by simp
  have "last (trim s) = hd ?u" using u by (simp add: trim_def last_rev)
  with hd_dropWhile [OF u] show "\<not> isWhiteSpace (last (trim s))" by simp
qed

lemma trim_id:
  assumes "s \<noteq> []" "\<not> isWhiteSpace (hd s)" "\<not> isWhiteSpace (last s)"
  shows "trim s = s"
proof -
  from assms have "dropWhile isWhiteSpace s = s" by (cases s) auto
  moreover from assms have "dropWhile isWhiteSpace (rev s) = rev s"
    by (cases "rev s") (auto simp: hd_rev)
  ultimately show ?thesis by (simp add: trim_def)
qed

lemma collapseWhitespace_Nil_iff: "collapseWhitespace s = [] \<longleftrightarrow> s = []"
  by (cases s) auto

lemma collapseWhitespace_only_space:
  "c \<in> set (collapseWhitespace s) \<Longrightarrow> isWhiteSpace c \<Longrightarrow> c = 32"
proof (induction s rule: collapseWhitespace.induct)
  case 1
  then show ?case by simp
next
  case (2 d ds)
  then show ?case by (auto split: if_splits)
qed

lemma collapseWhitespace_hd:
  "s \<noteq> [] \<Longrightarrow> \<not> isWhiteSpace (hd s) \<Longrightarrow> hd (collapseWhitespace s) = hd s"
  by (cases s) auto

lemma collapseWhitespace_last:
  "s \<noteq> [] \<Longrightarrow> \<not> isWhiteSpace (last s) \<Longrightarrow> \<not> isWhiteSpace (last (collapseWhitespace s))"
proof (induction s rule: collapseWhitespace.induct)
  case 1
  then show ?case by simp
next
  case (2 c cs)
  show ?case
  proof (cases "isWhiteSpace c")
    case True
    with "2.prems" have cs: "cs \<noteq> []" by auto
    with "2.prems" have l: "\<not> isWhiteSpace (last cs)" by simp
    have d: "dropWhile isWhiteSpace cs \<noteq> []"
    proof
      assume "dropWhile isWhiteSpace cs = []"
      then have "\<forall>x\<in>set cs. isWhiteSpace x" by (simp add: dropWhile_eq_Nil_conv)
      with cs l show False using last_in_set by blast
    qed
    have "last (dropWhile isWhiteSpace cs) = last cs"
      using d by (rule last_dropWhile_nonempty)
    with "2.IH"(1) [OF True d] l
    have "\<not> isWhiteSpace (last (collapseWhitespace (dropWhile isWhiteSpace cs)))" by simp
    moreover have "collapseWhitespace (dropWhile isWhiteSpace cs) \<noteq> []"
      using d by (simp add: collapseWhitespace_Nil_iff)
    ultimately show ?thesis using True by simp
  next
    case False
    show ?thesis
    proof (cases "cs = []")
      case True
      with False show ?thesis by simp
    next
      case nonempty: False
      with "2.prems" have "\<not> isWhiteSpace (last cs)" by simp
      from "2.IH"(2) [OF False nonempty this] nonempty False
      show ?thesis by (simp add: collapseWhitespace_Nil_iff)
    qed
  qed
qed

lemma collapseWhitespace_not_adjacent: "\<not> adjacentWhiteSpace (collapseWhitespace s)"
proof (induction s rule: collapseWhitespace.induct)
  case 1
  then show ?case by simp
next
  case (2 c cs)
  show ?case
  proof (cases "isWhiteSpace c")
    case True
    let ?d = "dropWhile isWhiteSpace cs"
    show ?thesis
    proof (cases "?d = []")
      case True
      with \<open>isWhiteSpace c\<close> show ?thesis by (simp del: dropWhile_eq_Nil_conv)
    next
      case False
      then have "\<not> isWhiteSpace (hd ?d)" by (rule hd_dropWhile)
      with False have h: "\<not> isWhiteSpace (hd (collapseWhitespace ?d))"
        by (simp add: collapseWhitespace_hd)
      from False obtain x xs where x: "collapseWhitespace ?d = x # xs"
        by (cases "collapseWhitespace ?d") (auto simp: collapseWhitespace_Nil_iff)
      with h "2.IH"(1) [OF True] True show ?thesis by simp
    qed
  next
    case False
    with "2.IH"(2) [OF False] show ?thesis
      by (cases "collapseWhitespace cs") auto
  qed
qed

lemma adjacentWhiteSpace_nth:
  "adjacentWhiteSpace s \<longleftrightarrow> (\<exists>i. Suc i < length s \<and> isWhiteSpace (s ! i) \<and> isWhiteSpace (s ! Suc i))"
proof (induction s rule: adjacentWhiteSpace.induct)
  case (1 a b cs)
  show ?case
  proof
    assume "adjacentWhiteSpace (a # b # cs)"
    then consider "isWhiteSpace a \<and> isWhiteSpace b" | "adjacentWhiteSpace (b # cs)" by auto
    then show "\<exists>i. Suc i < length (a # b # cs) \<and> isWhiteSpace ((a # b # cs) ! i) \<and> isWhiteSpace ((a # b # cs) ! Suc i)"
    proof cases
      case 1
      then show ?thesis by (intro exI [of _ 0]) simp
    next
      case 2
      with 1 obtain i where "Suc i < length (b # cs)" "isWhiteSpace ((b # cs) ! i)" "isWhiteSpace ((b # cs) ! Suc i)"
        by auto
      then show ?thesis by (intro exI [of _ "Suc i"]) simp
    qed
  next
    assume "\<exists>i. Suc i < length (a # b # cs) \<and> isWhiteSpace ((a # b # cs) ! i) \<and> isWhiteSpace ((a # b # cs) ! Suc i)"
    then obtain i where i: "Suc i < length (a # b # cs)" "isWhiteSpace ((a # b # cs) ! i)" "isWhiteSpace ((a # b # cs) ! Suc i)"
      by blast
    show "adjacentWhiteSpace (a # b # cs)"
    proof (cases i)
      case 0
      with i show ?thesis by simp
    next
      case (Suc j)
      with i have "Suc j < length (b # cs) \<and> isWhiteSpace ((b # cs) ! j) \<and> isWhiteSpace ((b # cs) ! Suc j)"
        by simp
      with 1 have "adjacentWhiteSpace (b # cs)" by blast
      then show ?thesis by simp
    qed
  qed
qed simp_all

lemma splitParagraphs_from_no_newline:
  "10 \<notin> set s \<Longrightarrow> splitParagraphs_from cur s = [cur @ s]"
  by (induction s arbitrary: cur) auto


lemma basicTextCleaning_shape:
  "basicTextCleaning text = [] \<or> (\<exists>u. u \<noteq> [] \<and> \<not> isWhiteSpace (hd u) \<and> \<not> isWhiteSpace (last u)
      \<and> basicTextCleaning text = collapseWhitespace u)"
proof (cases "text = []")
  case True
  then show ?thesis by (simp add: basicTextCleaning_def)
next
  case False
  then obtain x where b: "basicTextCleaning text = collapseWhitespace (trim x)"
    by (simp add: basicTextCleaning_def)
  show ?thesis
  proof (cases "trim x = []")
    case True
    with b show ?thesis by simp
  next
    case False
    with trim_ends [OF False] b show ?thesis by blast
  qed
qed

text \<open>
  C10. For every input string, \<^verbatim>\<open>basicTextCleaning\<close> returns a string that neither begins
  nor ends with white space and has no two neighbouring white-space code units; every
  white-space code unit of it is a single space, so it has no line feed, the paragraph
  split of the chunker finds no blank line in it, and \<^verbatim>\<open>semanticChunking\<close> makes one chunk
  of it (none when it is empty).
\<close>

theorem basicTextCleaning_normalised:
  "(basicTextCleaning text \<noteq> [] \<longrightarrow>
      \<not> isWhiteSpace (hd (basicTextCleaning text)) \<and> \<not> isWhiteSpace (last (basicTextCleaning text)))
   \<and> (\<forall>i. Suc i < length (basicTextCleaning text) \<longrightarrow>
         \<not> (isWhiteSpace (basicTextCleaning text ! i) \<and> isWhiteSpace (basicTextCleaning text ! Suc i)))
   \<and> (\<forall>c \<in> set (basicTextCleaning text). isWhiteSpace c \<longrightarrow> c = 32)
   \<and> 10 \<notin> set (basicTextCleaning text)
   \<and> splitParagraphs (basicTextCleaning text) = [basicTextCleaning text]
   \<and> semanticChunking (basicTextCleaning text) =
       (if basicTextCleaning text = [] then [] else [basicTextCleaning text])"
proof -
  let ?r = "basicTextCleaning text"
  have ends: "?r \<noteq> [] \<longrightarrow> \<not> isWhiteSpace (hd ?r) \<and> \<not> isWhiteSpace (last ?r)"
    using basicTextCleaning_shape [of "text"]
    by (auto simp: collapseWhitespace_hd collapseWhitespace_last)
  have "\<not> adjacentWhiteSpace ?r"
    using basicTextCleaning_shape [of "text"] collapseWhitespace_not_adjacent by auto
  then have adj: "\<forall>i. Suc i < length ?r \<longrightarrow> \<not> (isWhiteSpace (?r ! i) \<and> isWhiteSpace (?r ! Suc i))"
    by (simp add: adjacentWhiteSpace_nth)
  have sp: "\<forall>c \<in> set ?r. isWhiteSpace c \<longrightarrow> c = 32"
    using basicTextCleaning_shape [of "text"] collapseWhitespace_only_space by auto
  have nl: "10 \<notin> set ?r"
  proof
    assume "10 \<in> set ?r"
    with sp isWhiteSpace_newline have "(10 :: jschar) = 32" by blast
    then show False by simp
  qed
  then have par: "splitParagraphs ?r = [?r]"
    by (simp add: splitParagraphs_def splitParagraphs_from_no_newline)
  have sem: "semanticChunking ?r = (if ?r = [] then [] else [?r])"
  proof (cases "?r = []")
    case True
    then show ?thesis
      by (simp add: semanticChunking_def splitParagraphs_def semanticChunking_step_def trim_def)
  next
    case False
    with ends have "trim ?r = ?r" by (simp add: trim_id)
    with False par show ?thesis
      by (simp add: semanticChunking_def semanticChunking_step_def)
  qed
  from ends adj sp nl par sem show ?thesis by blast
qed

lemma exampleRawText_cleaned:
  "basicTextCleaning exampleRawText = utf16 ''Hello World. foo Bar 3.14 ok, z- item''"
  unfolding exampleRawText_def by code_simp

theorem basicTextCleaning_normalised_witness:
  "basicTextCleaning exampleRawText = utf16 ''Hello World. foo Bar 3.14 ok, z- item''
   \<and> 10 \<in> set exampleRawText
   \<and> 10 \<notin> set (basicTextCleaning exampleRawText)
   \<and> \<not> isWhiteSpace (hd (basicTextCleaning exampleRawText))
   \<and> \<not> isWhiteSpace (last (basicTextCleaning exampleRawText))
   \<and> splitParagraphs (basicTextCleaning exampleRawText) = [basicTextCleaning exampleRawText]
   \<and> semanticChunking (basicTextCleaning exampleRawText) = [basicTextCleaning exampleRawText]"
proof -
  have ne: "basicTextCleaning exampleRawText \<noteq> []"
    by (simp add: exampleRawText_cleaned)
  have nl: "10 \<in> set exampleRawText"
    by (simp add: exampleRawText_def)
  from basicTextCleaning_normalised [of exampleRawText] ne nl exampleRawText_cleaned
  show ?thesis by simp
qed


section \<open>Whole-document retrieval: deduplication and truncation\<close>

lemma removeDuplicateChunks_from_ids:
  "result_id ` set (removeDuplicateChunks_from seen cs) \<inter> seen = {}"
  by (induction cs arbitrary: seen) auto

lemma removeDuplicateChunks_from_distinct:
  "distinct (map result_id (removeDuplicateChunks_from seen cs))"
proof (induction cs arbitrary: seen)
  case Nil
  then show ?case by simp
next
  case (Cons c cs)
  have "result_id c \<notin> result_id ` set (removeDuplicateChunks_from (insert (result_id c) seen) cs)"
    using removeDuplicateChunks_from_ids [of "insert (result_id c) seen" cs] by blast
  with Cons show ?case by simp
qed

lemma removeDuplicateChunks_from_snoc:
  "removeDuplicateChunks_from seen (cs @ [c]) =
     removeDuplicateChunks_from seen cs
     @ (if result_id c \<in> seen \<union> result_id ` set cs then [] else [c])"
  by (induction cs arbitrary: seen) auto

lemma removeDuplicateChunks_first_occurrences:
  "removeDuplicateChunks cs =
     map (nth cs)
       (filter (\<lambda>i. result_id (cs ! i) \<notin> result_id ` set (take i cs)) [0 ..< length cs])"
proof (induction cs rule: rev_induct)
  case Nil
  then show ?case by (simp add: removeDuplicateChunks_def)
next
  case (snoc c cs)
  let ?keep = "\<lambda>xs i. result_id (xs ! i) \<notin> result_id ` set (take i xs)"
  have f: "filter (?keep (cs @ [c])) [0 ..< length cs] = filter (?keep cs) [0 ..< length cs]"
    by (rule filter_cong) (auto simp: nth_append)
  have m: "map (nth (cs @ [c])) (filter (?keep cs) [0 ..< length cs])
           = map (nth cs) (filter (?keep cs) [0 ..< length cs])"
    by (rule map_cong) (auto simp: nth_append)
  have "removeDuplicateChunks (cs @ [c]) =
          removeDuplicateChunks cs @ (if result_id c \<in> result_id ` set cs then [] else [c])"
    by (simp add: removeDuplicateChunks_def removeDuplicateChunks_from_snoc)
  with snoc f m show ?case by simp
qed

lemma removeDuplicateChunks_distinct: "distinct (map result_id (removeDuplicateChunks cs))"
  by (simp add: removeDuplicateChunks_def removeDuplicateChunks_from_distinct)

lemma searchAll_success:
  "\<forall>query \<in> set queries. search query = Inr (results query) \<Longrightarrow>
     searchAll search allChunks queries = Inr (allChunks @ concat (map results queries))"
  by (induction queries arbitrary: allChunks) auto

lemma searchAll_failure:
  "searchAll search allChunks queries = Inl e \<Longrightarrow> \<exists>query \<in> set queries. search query = Inl e"
  by (induction queries arbitrary: allChunks) (auto split: sum.splits)

lemma sliceTo_nonneg: "0 \<le> k \<Longrightarrow> sliceTo k xs = take (nat k) xs"
  by (simp add: sliceTo_def Let_def min_def)

lemma sliceTo_is_take: "\<exists>n. sliceTo k xs = take n xs"
  by (auto simp: sliceTo_def Let_def)

lemma sliceTo_distinct: "distinct (map f xs) \<Longrightarrow> distinct (map f (sliceTo k xs))"
proof -
  assume d: "distinct (map f xs)"
  obtain n where "sliceTo k xs = take n xs" using sliceTo_is_take by blast
  with d show ?thesis by (simp add: take_map [symmetric] distinct_take)
qed

text \<open>
  C8. With no custom query, when each of the four general queries is searched for
  \<open>\<lceil>topK / 4\<rceil>\<close> results and succeeds, \<^verbatim>\<open>_getRelevantContent\<close> returns the results of the
  four searches, concatenated in the order of the queries, with every chunk removed whose
  id occurs earlier in the concatenation (the first occurrence of an id stays), cut by
  \<^verbatim>\<open>slice(0, topK)\<close>. The ids of the list returned are distinct, and for a count
  \<open>topK \<ge> 0\<close> the list is the first \<open>topK\<close> of the deduplicated chunks, so it has at most
  \<open>topK\<close> elements.
\<close>

theorem getRelevantContent_general_queries:
  assumes "customQuery = []"
    and "\<forall>query \<in> set generalQueries.
           searchWithQuery query documentId (- ((- topK) div 4)) = Inr (results query)"
    and "allChunks = concat (map results generalQueries)"
  shows "getRelevantContent searchWithQuery documentId customQuery topK
           = Inr (sliceTo topK (removeDuplicateChunks allChunks))
         \<and> removeDuplicateChunks allChunks =
             map (nth allChunks)
               (filter (\<lambda>i. result_id (allChunks ! i) \<notin> result_id ` set (take i allChunks))
                  [0 ..< length allChunks])
         \<and> distinct (map result_id (sliceTo topK (removeDuplicateChunks allChunks)))
         \<and> (0 \<le> topK \<longrightarrow>
               sliceTo topK (removeDuplicateChunks allChunks)
                 = take (nat topK) (removeDuplicateChunks allChunks)
               \<and> int (length (sliceTo topK (removeDuplicateChunks allChunks))) \<le> topK)"
proof -
  have four: "int (length generalQueries) = 4"
    by (simp add: generalQueries_def)
  from assms(2) four
  have "searchAll (\<lambda>query. searchWithQuery query documentId
                              (- ((- topK) div int (length generalQueries))))
          [] generalQueries = Inr ([] @ concat (map results generalQueries))"
    by (intro searchAll_success) simp
  with assms(1,3) have 1: "getRelevantContent searchWithQuery documentId customQuery topK
           = Inr (sliceTo topK (removeDuplicateChunks allChunks))"
    by (simp add: getRelevantContent_def)
  have 3: "distinct (map result_id (sliceTo topK (removeDuplicateChunks allChunks)))"
    by (intro sliceTo_distinct removeDuplicateChunks_distinct)
  have 4: "0 \<le> topK \<longrightarrow>
               sliceTo topK (removeDuplicateChunks allChunks)
                 = take (nat topK) (removeDuplicateChunks allChunks)
               \<and> int (length (sliceTo topK (removeDuplicateChunks allChunks))) \<le> topK"
    by (auto simp: sliceTo_nonneg)
  from 1 removeDuplicateChunks_first_occurrences [of allChunks] 3 4 show ?thesis by blast
qed

lemma example_allChunks:
  "concat (map exampleResults generalQueries) =
     [exampleResult ''a'' 90, exampleResult ''b'' 80, exampleResult ''b'' 70, exampleResult ''c'' 60,
      exampleResult ''a'' 50, exampleResult ''d'' 40, exampleResult ''e'' 30, exampleResult ''f'' 20]"
  by (simp add: generalQueries_def exampleResults_def)

lemma example_dedup:
  "removeDuplicateChunks
     [exampleResult ''a'' 90, exampleResult ''b'' 80, exampleResult ''b'' 70, exampleResult ''c'' 60,
      exampleResult ''a'' 50, exampleResult ''d'' 40, exampleResult ''e'' 30, exampleResult ''f'' 20]
   = [exampleResult ''a'' 90, exampleResult ''b'' 80, exampleResult ''c'' 60, exampleResult ''d'' 40, exampleResult ''e'' 30, exampleResult ''f'' 20]"
  by (simp add: removeDuplicateChunks_def exampleResult_def)

theorem getRelevantContent_general_queries_witness:
  "getRelevantContent exampleSearch (utf16 ''doc'') [] 5
     = Inr [exampleResult ''a'' 90, exampleResult ''b'' 80, exampleResult ''c'' 60,
            exampleResult ''d'' 40, exampleResult ''e'' 30]"
proof -
  have h: "\<forall>query \<in> set generalQueries.
             exampleSearch query (utf16 ''doc'') (- ((- 5) div 4)) = Inr (exampleResults query)"
    by (simp add: generalQueries_def exampleSearch_def exampleResults_def sliceTo_def)
  from getRelevantContent_general_queries
         [where customQuery = "[]" and searchWithQuery = exampleSearch
            and documentId = "utf16 ''doc''" and topK = 5 and results = exampleResults
            and allChunks = "concat (map exampleResults generalQueries)", OF refl h refl]
  have "getRelevantContent exampleSearch (utf16 ''doc'') [] 5
          = Inr (sliceTo 5 (removeDuplicateChunks (concat (map exampleResults generalQueries))))"
    by (rule conjunct1)
  then show ?thesis
    by (simp add: example_allChunks example_dedup sliceTo_def)
qed

section \<open>TextChunker: what createChunks returns\<close>

lemma validateChunkBatch_id: "validateChunkBatch llm batch = batch"
  by (simp add: validateChunkBatch_def applyValidationResults_def split: sum.splits)

lemma validateChunks_id: "validateChunks llm cs = cs"
proof (induction llm cs rule: validateChunks.induct)
  case (1 llm cs)
  show ?case
  proof (cases "cs = []")
    case True
    then show ?thesis by (simp add: validateChunks.simps)
  next
    case False
    with 1 have "validateChunks llm (drop 5 cs) = drop 5 cs" by simp
    with False show ?thesis
      by (subst validateChunks.simps) (simp add: validateChunkBatch_id)
  qed
qed

lemma createChunks_eq:
  "createChunks cfg llm clock text pageCount =
     Inr (addMetadata clock (optimizeChunkSizes cfg (semanticChunking text)) pageCount)"
  by (simp add: createChunks_def Let_def validateChunks_id)

lemma addMetadata_snoc:
  "addMetadata clock (cs @ [c]) pageCount =
     addMetadata clock cs pageCount
     @ [\<lparr> content = c, index = length cs, tokenCount = estimateTokenCount c,
           chunkId = utf16 ''chunk_'' @ decimal (int (length cs)) @ utf16 ''_''
                     @ decimal (clock (length cs)) \<rparr>]"
  by (simp add: addMetadata_def)

lemma addMetadata_length: "length (addMetadata clock cs pageCount) = length cs"
  by (simp add: addMetadata_def)

lemma addMetadata_content: "map content (addMetadata clock cs pageCount) = cs"
  by (induction cs rule: rev_induct) (simp_all add: addMetadata_snoc, simp add: addMetadata_def)

lemma addMetadata_tokenCounts:
  "map tokenCount (addMetadata clock cs pageCount) = map estimateTokenCount cs"
  by (induction cs rule: rev_induct) (simp_all add: addMetadata_snoc, simp add: addMetadata_def)

lemma addMetadata_index: "map index (addMetadata clock cs pageCount) = [0 ..< length cs]"
  by (induction cs rule: rev_induct) (simp_all add: addMetadata_snoc, simp add: addMetadata_def)

lemma addMetadata_chunkId:
  "map chunkId (addMetadata clock cs pageCount) =
     map (\<lambda>i. utf16 ''chunk_'' @ decimal (int i) @ utf16 ''_'' @ decimal (clock i))
       [0 ..< length cs]"
  by (induction cs rule: rev_induct) (simp_all add: addMetadata_snoc, simp add: addMetadata_def)























text \<open>
  C5 as stated fails: with \<^verbatim>\<open>CHUNK_MAX_TOKENS=10\<close> and \<^verbatim>\<open>CHUNK_MIN_TOKENS=100\<close> the
  configuration has \<open>minTokens > maxTokens\<close>, and \<^verbatim>\<open>createChunks\<close> processes the text and
  returns a chunk.
\<close>

theorem createChunks_inverted_bounds_counterexample:
  "minTokens (CHUNK_CONFIG (Some 10) None (Some 100))
     > maxTokens (CHUNK_CONFIG (Some 10) None (Some 100))
   \<and> createChunks (CHUNK_CONFIG (Some 10) None (Some 100)) llmUnavailable clockA twoParagraphs 1
       = Inr [\<lparr> content = utf16 ''Intro one two.'' @ blankLine @ utf16 ''# Head three four'',
                index = 0, tokenCount = 10, chunkId = utf16 ''chunk_0_1716469274000'' \<rparr>]"
  by code_simp

text \<open>
  C5 (amended). Chunking checks no configuration: for every configuration, also one with
  \<open>minTokens > maxTokens\<close>, every text, every clock and whatever the language model does,
  \<^verbatim>\<open>createChunks\<close> is fulfilled with the chunks that \<^verbatim>\<open>optimizeChunkSizes\<close> makes of the
  paragraphs; it has no failure of its own.
\<close>

theorem createChunks_never_rejects:
  "\<exists>cs. createChunks cfg llm clock text pageCount = Inr cs
        \<and> map content cs = optimizeChunkSizes cfg (semanticChunking text)"
  by (simp add: createChunks_eq addMetadata_content)

text \<open>The same with a language model that answers, and the inverted bounds.\<close>

theorem createChunks_never_rejects_witness:
  "createChunks (CHUNK_CONFIG (Some 10) None (Some 100)) llmTalkative clockA twoParagraphs 1
     = Inr [\<lparr> content = utf16 ''Intro one two.'' @ blankLine @ utf16 ''# Head three four'',
              index = 0, tokenCount = 10, chunkId = utf16 ''chunk_0_1716469274000'' \<rparr>]"
proof -
  have e: "addMetadata clockA
             (optimizeChunkSizes (CHUNK_CONFIG (Some 10) None (Some 100))
                (semanticChunking twoParagraphs)) 1
           = [\<lparr> content = utf16 ''Intro one two.'' @ blankLine @ utf16 ''# Head three four'',
                index = 0, tokenCount = 10, chunkId = utf16 ''chunk_0_1716469274000'' \<rparr>]"
    by code_simp
  from createChunks_never_rejects
         [of "CHUNK_CONFIG (Some 10) None (Some 100)" llmTalkative clockA twoParagraphs 1]
  obtain cs where
    "createChunks (CHUNK_CONFIG (Some 10) None (Some 100)) llmTalkative clockA twoParagraphs 1
       = Inr cs"
    by blast
  with e show ?thesis by (simp add: createChunks_eq)
qed

text \<open>
  C4 as stated fails: two runs on the same text, page count and configuration, one
  millisecond apart, return different chunk ids; the id holds the index and the clock
  reading, not a document id.
\<close>

theorem createChunks_chunkId_counterexample:
  "createChunks (CHUNK_CONFIG None None None) llmUnavailable clockA twoParagraphs 1
     = Inr [\<lparr> content = utf16 ''Intro one two.'' @ blankLine @ utf16 ''# Head three four'',
              index = 0, tokenCount = 10, chunkId = utf16 ''chunk_0_1716469274000'' \<rparr>]
   \<and> createChunks (CHUNK_CONFIG None None None) llmUnavailable clockB twoParagraphs 1
       = Inr [\<lparr> content = utf16 ''Intro one two.'' @ blankLine @ utf16 ''# Head three four'',
                index = 0, tokenCount = 10, chunkId = utf16 ''chunk_0_1716469274001'' \<rparr>]
   \<and> createChunks (CHUNK_CONFIG None None None) llmUnavailable clockA twoParagraphs 1
       \<noteq> createChunks (CHUNK_CONFIG None None None) llmUnavailable clockB twoParagraphs 1"
  by code_simp

text \<open>
  C4 (amended). Two runs of \<^verbatim>\<open>createChunks\<close> on the same text, page count and
  configuration return the same number of chunks with the same contents, indices
  \<open>0, 1, ...\<close> and token counts, whatever the clock and the language model do; the id of
  the chunk at index \<open>i\<close> is \<^verbatim>\<open>chunk_\<close>\<open>i\<close>\<^verbatim>\<open>_\<close>\<open>t\<close> with \<open>t\<close> the clock reading taken when
  that chunk is built.
\<close>

theorem createChunks_deterministic_up_to_clock:
  "\<exists>cs cs'. createChunks cfg llm clock text pageCount = Inr cs
     \<and> createChunks cfg llm' clock' text pageCount = Inr cs'
     \<and> map content cs = map content cs'
     \<and> map index cs = map index cs'
     \<and> map tokenCount cs = map tokenCount cs'
     \<and> map index cs = [0 ..< length cs]
     \<and> map chunkId cs =
         map (\<lambda>i. utf16 ''chunk_'' @ decimal (int i) @ utf16 ''_'' @ decimal (clock i))
           [0 ..< length cs]"
  by (simp add: createChunks_eq addMetadata_content addMetadata_index addMetadata_tokenCounts
        addMetadata_chunkId addMetadata_length)

text \<open>Two such runs, with and without a language model, a millisecond apart.\<close>

theorem createChunks_deterministic_up_to_clock_witness:
  "map content (projr (createChunks (CHUNK_CONFIG None None None) llmUnavailable clockA twoParagraphs 1))
     = map content (projr (createChunks (CHUNK_CONFIG None None None) llmTalkative clockB twoParagraphs 1))
   \<and> map chunkId (projr (createChunks (CHUNK_CONFIG None None None) llmUnavailable clockA twoParagraphs 1))
       = [utf16 ''chunk_0_1716469274000'']
   \<and> map chunkId (projr (createChunks (CHUNK_CONFIG None None None) llmTalkative clockB twoParagraphs 1))
       = [utf16 ''chunk_0_1716469274001'']"
proof -
  have a: "map chunkId (projr (createChunks (CHUNK_CONFIG None None None) llmUnavailable clockA twoParagraphs 1))
       = [utf16 ''chunk_0_1716469274000'']"
    by code_simp
  have b: "map chunkId (addMetadata clockB
             (optimizeChunkSizes (CHUNK_CONFIG None None None) (semanticChunking twoParagraphs)) 1)
       = [utf16 ''chunk_0_1716469274001'']"
    by code_simp
  from createChunks_deterministic_up_to_clock
         [of "CHUNK_CONFIG None None None" llmUnavailable clockA twoParagraphs 1 llmTalkative clockB]
  obtain cs cs' where
    "createChunks (CHUNK_CONFIG None None None) llmUnavailable clockA twoParagraphs 1 = Inr cs"
    "createChunks (CHUNK_CONFIG None None None) llmTalkative clockB twoParagraphs 1 = Inr cs'"
    "map content cs = map content cs'"
    by blast
  with a b show ?thesis by (simp add: createChunks_eq)
qed

lemma pushChunk_eq:
  "pushChunk (chunks, cur, buffer)
     = chunks @ [if buffer \<noteq> [] then buffer @ space @ cur else cur]"
  by simp

lemma splitLargeChunk_step_eq:
  "splitLargeChunk_step maxT ov (chunks, cur, buffer) sentence
     = (if estimateTokenCount (withSentence cur sentence) > maxT \<and> cur \<noteq> []
        then (pushChunk (chunks, cur, buffer), sentence, overlapWindow ov cur)
        else (chunks, withSentence cur sentence, buffer))"
  by (simp only: splitLargeChunk_step.simps Let_def withSentence_def overlapWindow_def)

lemma splitLargeChunk_foldl:
  "splitLargeChunk_finish (foldl (splitLargeChunk_step maxT ov) (chunks, cur, buffer) sentences)
     = chunks @ prependOverlap ov buffer (sentenceSpans maxT cur sentences)"
proof (induction sentences arbitrary: chunks cur buffer)
  case Nil
  then show ?case by simp
next
  case (Cons sentence sentences)
  show ?case
  proof (cases "estimateTokenCount (withSentence cur sentence) > maxT \<and> cur \<noteq> []")
    case True
    then have "splitLargeChunk_step maxT ov (chunks, cur, buffer) sentence
           = (chunks @ [if buffer \<noteq> [] then buffer @ space @ cur else cur],
              sentence, overlapWindow ov cur)"
      by (simp add: splitLargeChunk_step_eq pushChunk_eq
            del: splitLargeChunk_step.simps pushChunk.simps)
    moreover from True have "sentenceSpans maxT cur (sentence # sentences)
           = cur # sentenceSpans maxT sentence sentences"
      by simp
    ultimately show ?thesis
      by (simp add: Cons.IH del: splitLargeChunk_step.simps splitLargeChunk_finish.simps)
  next
    case False
    have "splitLargeChunk_step maxT ov (chunks, cur, buffer) sentence
           = (chunks, withSentence cur sentence, buffer)"
      by (simp only: splitLargeChunk_step_eq False if_False)
    moreover have "sentenceSpans maxT cur (sentence # sentences)
           = sentenceSpans maxT (withSentence cur sentence) sentences"
      by (simp only: sentenceSpans.simps False if_False)
    ultimately show ?thesis
      by (simp add: Cons.IH del: splitLargeChunk_step.simps splitLargeChunk_finish.simps)
  qed
qed

lemma sliceFrom_last:
  "0 < n \<Longrightarrow> sliceFrom (- n) xs = drop (length xs - nat n) xs"
  by (auto simp: sliceFrom_def Let_def max_def nat_diff_distrib' intro: arg_cong [where f = "\<lambda>k. drop k xs"])

text \<open>
  C6 (amended). A chunk whose estimate exceeds \<open>maxTokens\<close> is replaced by the result of
  \<^verbatim>\<open>splitLargeChunk\<close>, which splits it at sentence boundaries into spans and emits the first
  span as it is and every later span prefixed, after one space, by the overlap window of
  the span before it: for \<open>N = \<lceil>overlap / 10\<rceil> \<ge> 1\<close> the last \<open>N\<close> sentences of that span
  without its own prefix (all of them when it has fewer), joined by single spaces. How many
  chunks come out depends on the lengths of the sentences.
\<close>

theorem splitLargeChunk_spans_with_overlap:
  "splitLargeChunk chunk maxT ov
     = prependOverlap ov [] (sentenceSpans maxT [] (splitSentences chunk))
   \<and> (0 < ceilTenth ov \<longrightarrow>
        overlapWindow ov sp
          = join space (drop (length (splitSentences sp) - nat (ceilTenth ov))
                          (splitSentences sp)))
   \<and> (estimateTokenCount chunk > maxTokens cfg \<longrightarrow>
        optimizeChunkSizes_step cfg optimized chunk
          = optimized @ splitLargeChunk chunk (maxTokens cfg) (overlap cfg))"
proof -
  have 1: "splitLargeChunk chunk maxT ov
     = prependOverlap ov [] (sentenceSpans maxT [] (splitSentences chunk))"
    by (simp add: splitLargeChunk_def splitLargeChunk_foldl)
  have 2: "0 < ceilTenth ov \<longrightarrow>
        overlapWindow ov sp
          = join space (drop (length (splitSentences sp) - nat (ceilTenth ov))
                          (splitSentences sp))"
    by (simp add: overlapWindow_def sliceFrom_last)
  have 3: "estimateTokenCount chunk > maxTokens cfg \<longrightarrow>
        optimizeChunkSizes_step cfg optimized chunk
          = optimized @ splitLargeChunk chunk (maxTokens cfg) (overlap cfg)"
    by (simp add: optimizeChunkSizes_step_def Let_def)
  from 1 2 3 show ?thesis by blast
qed


lemma paragraph45_spans:
  "prependOverlap 20 [] (sentenceSpans 100 [] (splitSentences paragraph45))
     = [join space (map fiveWordSentence [1 ..< 16]),
        join space (map fiveWordSentence [14 ..< 31]),
        join space (map fiveWordSentence [29 ..< 46])]"
  by code_simp

lemma paragraph45_tokens: "estimateTokenCount paragraph45 = 300"
  by code_simp

text \<open>
  The scenario of 300 tokens, \<open>maxTokens = 100\<close>, \<open>overlap = 20\<close> with 45 sentences of five
  words: three chunks, the second and the third starting with the last two sentences of
  the span before.
\<close>

theorem splitLargeChunk_spans_with_overlap_witness:
  "estimateTokenCount paragraph45 = 300
   \<and> ceilTenth 20 = 2
   \<and> splitLargeChunk paragraph45 100 20
       = [join space (map fiveWordSentence [1 ..< 16]),
          join space (map fiveWordSentence [14 ..< 31]),
          join space (map fiveWordSentence [29 ..< 46])]"
proof -
  from splitLargeChunk_spans_with_overlap
         [where chunk = paragraph45 and maxT = 100 and ov = 20 and sp = "[]"
            and cfg = "\<lparr>maxTokens = 100, overlap = 20, minTokens = 50\<rparr>" and optimized = "[]"]
  have "splitLargeChunk paragraph45 100 20
          = prependOverlap 20 [] (sentenceSpans 100 [] (splitSentences paragraph45))"
    by (rule conjunct1)
  with paragraph45_spans paragraph45_tokens show ?thesis
    by (simp add: ceilTenth_def)
qed

text \<open>
  C6 as stated fails: the same scenario with 25 sentences of nine words gives four chunks.
\<close>

theorem splitLargeChunk_four_chunks_counterexample:
  "estimateTokenCount paragraph25 = 300
   \<and> splitLargeChunk paragraph25 100 20
       = [join space (map nineWordSentence [1 ..< 9]),
          join space (map nineWordSentence [7 ..< 17]),
          join space (map nineWordSentence [15 ..< 25]),
          join space (map nineWordSentence [23 ..< 26])]"
  by code_simp

section \<open>Embedding: prefixes, truncation and mock fallback\<close>

lemma prepareTextForEmbedding_eq:
  "prepareTextForEmbedding config t
     = prefixPassage config @ take (nat (modelMaxTokens config * 4)) t"
  by (auto simp: prepareTextForEmbedding_def Let_def)

lemma prepareTextForEmbedding_length:
  "0 \<le> modelMaxTokens config \<Longrightarrow>
     int (length (prepareTextForEmbedding config t))
       \<le> int (length (prefixPassage config)) + 4 * modelMaxTokens config"
  by (simp add: prepareTextForEmbedding_eq)

lemma prefixes_distinct: "prefixQuery EMBEDDING_MODEL \<noteq> prefixPassage EMBEDDING_MODEL"
  by (simp add: EMBEDDING_MODEL_def)

text \<open>
  C9. Every passage text is cut to \<open>4 * maxTokens\<close> code units and then prefixed with
  \<^verbatim>\<open>'passage: '\<close>, and a query is prefixed with \<^verbatim>\<open>'query: '\<close>; but a query is not cut: for
  a query of 2049 code units and the model's 512 tokens, the provider is given the prefix
  followed by all 2049 code units, where the passage path keeps 2048.
\<close>

theorem generateQueryEmbedding_sends_untruncated_query:
  "modelMaxTokens EMBEDDING_MODEL * 4 = 2048
   \<and> E5_generateQueryEmbedding EMBEDDING_MODEL reportingProvider (replicate 2049 97)
       = Inl (Error (utf16 ''query: '' @ replicate 2049 97))
   \<and> prepareTextForEmbedding EMBEDDING_MODEL (replicate 2049 97)
       = utf16 ''passage: '' @ replicate 2048 97"
  by (simp add: EMBEDDING_MODEL_def E5_generateQueryEmbedding_def preparedQuery_def
        reportingProvider_def prepareTextForEmbedding_def)


lemma withMockEmbeddings_chunks:
  "map fst (withMockEmbeddings random pos chunks) = chunks"
  by (induction chunks arbitrary: pos) auto

lemma withMockEmbeddings_vectors:
  "map snd (withMockEmbeddings random pos chunks)
     = map (\<lambda>i. Some (generateMockEmbedding random (pos + 384 * i))) [0 ..< length chunks]"
proof (induction chunks arbitrary: pos)
  case Nil
  then show ?case by simp
next
  case (Cons c cs)
  have "[0 ..< length (c # cs)] = 0 # map Suc [0 ..< length cs]"
    by (simp add: upt_conv_Cons map_Suc_upt del: upt_Suc)
  then show ?case
    by (simp add: Cons.IH comp_def add.assoc del: upt_Suc)
qed

lemma generateMockEmbedding_length: "length (generateMockEmbedding random pos) = 384"
  by (simp add: generateMockEmbedding_def Let_def)

text \<open>
  C3 as stated fails: with mock mode off, a failed call of the embedding script is answered
  with mock vectors for every chunk and for the query, and a failed search with the mock
  results; no error reaches the caller.
\<close>

theorem mock_fallback_on_error_counterexample:
  "generateChunkEmbeddings False failingChunkScript constantDraws [utf16 ''first'', utf16 ''second'']
     = Inr [(utf16 ''first'', Some (generateMockEmbedding constantDraws 0)),
            (utf16 ''second'', Some (generateMockEmbedding constantDraws 384))]
   \<and> generateQueryEmbedding False failingQueryScript constantDraws (utf16 ''what is AI'')
       = Inr (generateMockEmbedding constantDraws 0)
   \<and> searchSimilarChunks False failingSearchScript [] None (Some 2) None
       = Inr (getMockSearchResults None 2)"
  by (simp add: generateChunkEmbeddings_def generateQueryEmbedding_def searchSimilarChunks_def
        failingChunkScript_def failingQueryScript_def failingSearchScript_def)

text \<open>
  C3 (amended). In the bridge services with mock support no failure of a script reaches the
  caller. \<^verbatim>\<open>generateChunkEmbeddings\<close> answers in mock mode and after a failed call with every
  chunk, in order, paired with a mock vector of 384 random components;
  \<^verbatim>\<open>generateQueryEmbedding\<close> answers in mock mode, after a failed call and after an answer
  without an embedding with a mock vector; \<^verbatim>\<open>searchSimilarChunks\<close> answers in mock mode and
  after a failed call with the mock results. The vectors and results of the script are
  returned only when its call succeeds with mock mode off.
\<close>

theorem mock_fallback_on_error:
  "(mockMode \<or> (\<exists>e. chunkScript chunks = Inl e) \<longrightarrow>
      generateChunkEmbeddings mockMode chunkScript random chunks
        = Inr (withMockEmbeddings random 0 chunks))
   \<and> map fst (withMockEmbeddings random 0 chunks) = chunks
   \<and> map snd (withMockEmbeddings random 0 chunks)
       = map (\<lambda>i. Some (generateMockEmbedding random (0 + 384 * i))) [0 ..< length chunks]
   \<and> length (generateMockEmbedding random pos) = 384
   \<and> (\<not> mockMode \<and> chunkScript chunks = Inr (Some embeddings) \<longrightarrow>
        generateChunkEmbeddings mockMode chunkScript random chunks = Inr embeddings)
   \<and> (mockMode \<or> (\<exists>e. queryScript query = Inl e) \<or> queryScript query = Inr None \<longrightarrow>
        generateQueryEmbedding mockMode queryScript random query
          = Inr (generateMockEmbedding random 0))
   \<and> (\<not> mockMode \<and> queryScript query = Inr (Some embedding) \<longrightarrow>
        generateQueryEmbedding mockMode queryScript random query = Inr embedding)
   \<and> (mockMode
        \<or> (\<exists>e. searchScript (Command ''search'' # searchArgs queryEmbedding documentId
                     (case topK of None \<Rightarrow> 5 | Some k \<Rightarrow> k)
                     (case scoreThreshold of None \<Rightarrow> 0 | Some t \<Rightarrow> t)) = Inl e) \<longrightarrow>
        searchSimilarChunks mockMode searchScript queryEmbedding documentId topK scoreThreshold
          = Inr (getMockSearchResults documentId (case topK of None \<Rightarrow> 5 | Some k \<Rightarrow> k)))"
proof -
  have 1: "mockMode \<or> (\<exists>e. chunkScript chunks = Inl e) \<longrightarrow>
      generateChunkEmbeddings mockMode chunkScript random chunks
        = Inr (withMockEmbeddings random 0 chunks)"
    by (auto simp: generateChunkEmbeddings_def)
  have 2: "\<not> mockMode \<and> chunkScript chunks = Inr (Some embeddings) \<longrightarrow>
        generateChunkEmbeddings mockMode chunkScript random chunks = Inr embeddings"
    by (auto simp: generateChunkEmbeddings_def)
  have 3: "mockMode \<or> (\<exists>e. queryScript query = Inl e) \<or> queryScript query = Inr None \<longrightarrow>
        generateQueryEmbedding mockMode queryScript random query
          = Inr (generateMockEmbedding random 0)"
    by (auto simp: generateQueryEmbedding_def)
  have 4: "\<not> mockMode \<and> queryScript query = Inr (Some embedding) \<longrightarrow>
        generateQueryEmbedding mockMode queryScript random query = Inr embedding"
    by (auto simp: generateQueryEmbedding_def)
  have 5: "mockMode
        \<or> (\<exists>e. searchScript (Command ''search'' # searchArgs queryEmbedding documentId
                     (case topK of None \<Rightarrow> 5 | Some k \<Rightarrow> k)
                     (case scoreThreshold of None \<Rightarrow> 0 | Some t \<Rightarrow> t)) = Inl e) \<longrightarrow>
        searchSimilarChunks mockMode searchScript queryEmbedding documentId topK scoreThreshold
          = Inr (getMockSearchResults documentId (case topK of None \<Rightarrow> 5 | Some k \<Rightarrow> k))"
    by (auto simp: searchSimilarChunks_def Let_def)
  from 1 2 3 4 5 withMockEmbeddings_chunks [of random 0 chunks]
    withMockEmbeddings_vectors [of random 0 chunks] generateMockEmbedding_length [of random pos]
  show ?thesis by blast
qed

text \<open>The fallback at a failed call for two chunks, with mock mode off.\<close>

theorem mock_fallback_on_error_witness:
  "generateChunkEmbeddings False failingChunkScript constantDraws [utf16 ''first'', utf16 ''second'']
     = Inr (withMockEmbeddings constantDraws 0 [utf16 ''first'', utf16 ''second''])
   \<and> map fst (withMockEmbeddings constantDraws 0 [utf16 ''first'', utf16 ''second''])
       = [utf16 ''first'', utf16 ''second'']
   \<and> length (generateMockEmbedding constantDraws 0) = 384"
proof -
  have f: "False \<or> (\<exists>e. failingChunkScript [utf16 ''first'', utf16 ''second''] = Inl e)"
    by (simp add: failingChunkScript_def)
  from mock_fallback_on_error
         [where mockMode = False and chunkScript = failingChunkScript and random = constantDraws
            and chunks = "[utf16 ''first'', utf16 ''second'']" and pos = 0
            and queryScript = failingQueryScript and query = "[]"
            and searchScript = failingSearchScript and queryEmbedding = "[]"
            and documentId = None and topK = None and scoreThreshold = None
            and embeddings = "[]" and embedding = "[]"] f
  show ?thesis by blast
qed


lemma hit_rebuilt: "map (\<lambda>h. \<lparr> hit_id = hit_id h, hit_score = hit_score h,
                              hit_payload = hit_payload h, hit_vector = hit_vector h \<rparr>) hits
                    = (hits :: 'p hit list)"
  by (induction hits) auto

section \<open>The score threshold of the vector searches\<close>

lemma searchSimilar_eq:
  "searchSimilar client queryVector options
     = client \<lparr> request_vector = queryVector,
                limit = (case opt_limit options of None \<Rightarrow> 10 | Some l \<Rightarrow> l),
                score_threshold = (case opt_scoreThreshold options of
                                     None \<Rightarrow> toDouble 0.7 | Some t \<Rightarrow> t),
                request_filter = opt_filter options,
                with_payload = True,
                with_vector = (case opt_withEmbedding options of None \<Rightarrow> False | Some w \<Rightarrow> w) \<rparr>"
  by (simp add: searchSimilar_def Let_def hit_rebuilt split: sum.splits)

lemma roundSignificand_numeral:
  "roundSignificand (numeral k) x =
     (if x < 2 ^ 52 then roundSignificand (pred_numeral k) (2 * x) / 2
      else if 2 ^ 53 \<le> x then roundSignificand (pred_numeral k) (x / 2) * 2
      else of_int (roundTiesToEven x))"
  by (simp add: numeral_eq_Suc)

lemmas toDouble_eval = toDouble_def roundSignificand_numeral roundTiesToEven_def Let_def

lemma toDouble_default_threshold: "toDouble 0.7 = 3152519739159347 / 2 ^ 52"
  by (simp add: toDouble_eval)

lemma toDouble_095: "toDouble 0.95 = 4278419646001971 / 2 ^ 52"
  by (simp add: toDouble_eval)

lemma toDouble_005: "toDouble 0.05 = 3602879701896397 / 2 ^ 56"
  by (simp add: toDouble_eval)

lemma mockScore_0:
  "toDouble (toDouble 0.95 - toDouble (real (0 :: nat) * toDouble 0.05)) = 4278419646001971 / 2 ^ 52"
  by (simp add: toDouble_095 toDouble_005) (simp add: toDouble_eval)

lemma mockScore_1:
  "toDouble (toDouble 0.95 - toDouble (real (1 :: nat) * toDouble 0.05)) = 2026619832316723 / 2 ^ 51"
  by (simp add: toDouble_095 toDouble_005) (simp add: toDouble_eval)

lemma mockScore_2:
  "toDouble (toDouble 0.95 - toDouble (real (2 :: nat) * toDouble 0.05)) = 7656119366529843 / 2 ^ 53"
  by (simp add: toDouble_095 toDouble_005) (simp add: toDouble_eval)

lemma mockScore_3:
  "toDouble (toDouble 0.95 - toDouble (real (3 :: nat) * toDouble 0.05)) = 7205759403792793 / 2 ^ 53"
  by (simp add: toDouble_095 toDouble_005) (simp add: toDouble_eval)

lemma mockScore_4:
  "toDouble (toDouble 0.95 - toDouble (real (4 :: nat) * toDouble 0.05)) = 3 / 4"
  by (simp add: toDouble_095 toDouble_005) (simp add: toDouble_eval)

lemma mockScore_5:
  "toDouble (toDouble 0.95 - toDouble (real (5 :: nat) * toDouble 0.05)) = 3152519739159347 / 2 ^ 52"
  by (simp add: toDouble_095 toDouble_005) (simp add: toDouble_eval)

lemma mockScore_6:
  "toDouble (toDouble 0.95 - toDouble (real (6 :: nat) * toDouble 0.05)) = 1463669878895411 / 2 ^ 51"
  by (simp add: toDouble_095 toDouble_005) (simp add: toDouble_eval)

lemma mockScore_7:
  "toDouble (toDouble 0.95 - toDouble (real (7 :: nat) * toDouble 0.05)) = 2702159776422297 / 2 ^ 52"
  by (simp add: toDouble_095 toDouble_005) (simp add: toDouble_eval)

lemma upt_8: "[0 ..< 8] = [0, 1, 2, 3, 4, 5, 6, 7 :: nat]"
  by (simp add: upt_conv_Cons)

lemma mockScores_table:
  "map (\<lambda>i. toDouble (toDouble 0.95 - toDouble (real i * toDouble 0.05))) [0 ..< 8]
     = [4278419646001971 / 2 ^ 52, 2026619832316723 / 2 ^ 51, 7656119366529843 / 2 ^ 53,
        7205759403792793 / 2 ^ 53, 3 / 4, 3152519739159347 / 2 ^ 52,
        1463669878895411 / 2 ^ 51, 2702159776422297 / 2 ^ 52]"
  unfolding upt_8 list.map
  using mockScore_0 mockScore_1 mockScore_2 mockScore_3 mockScore_4 mockScore_5 mockScore_6
    mockScore_7
  by (simp only: of_nat_0 of_nat_1 of_nat_numeral)

lemma getMockSearchResults_scores:
  "map score (getMockSearchResults documentId topK)
     = take (nat topK)
         [4278419646001971 / 2 ^ 52, 2026619832316723 / 2 ^ 51, 7656119366529843 / 2 ^ 53,
          7205759403792793 / 2 ^ 53, 3 / 4, 3152519739159347 / 2 ^ 52,
          1463669878895411 / 2 ^ 51, 2702159776422297 / 2 ^ 52]"
proof -
  have "map score (getMockSearchResults documentId topK)
          = map (\<lambda>i. toDouble (toDouble 0.95 - toDouble (real i * toDouble 0.05)))
              [0 ..< nat (min topK 8)]"
    by (simp add: getMockSearchResults_def mockContent_def comp_def)
  also have "[0 ..< nat (min topK 8)] = take (nat topK) [0 ..< 8]"
    by (simp add: take_upt min_def nat_le_iff)
  finally show ?thesis
    by (simp only: take_map [symmetric] mockScores_table)
qed

lemma searchArgs_threshold:
  "(0 < t \<longrightarrow> drop (length (searchArgs queryEmbedding documentId topK t) - 2)
                 (searchArgs queryEmbedding documentId topK t)
               = [Flag ''--threshold'', Num t])
   \<and> (Flag ''--threshold'' \<in> set (searchArgs queryEmbedding documentId topK t) \<longleftrightarrow> 0 < t)"
  by (auto simp: searchArgs_def split: option.splits)

lemma thresholdClient_honours:
  "\<forall>request hits. thresholdClient request = Inr hits \<longrightarrow>
      (\<forall>h \<in> set hits. score_threshold request \<le> hit_score h)
      \<and> length hits \<le> nat (limit request)"
  by (auto simp: thresholdClient_def dest: in_set_takeD)


text \<open>
  C7 as stated fails. With a threshold of 1 a search whose script call fails returns five
  results, each with a score below 1: the doubles 0.95, 0.8999999999999999, 0.85,
  0.7999999999999999 and 0.75, here as fractions. And the default threshold of
  \<^verbatim>\<open>searchSimilar\<close> is the double 0.7, not 0, so that of two stored points with scores
  0.875 and 0.625 a client that honours the request returns only the first.
\<close>

theorem score_threshold_counterexample:
  "map score (projr (searchSimilarChunks False failingSearchScript [] None (Some 5) (Some 1)))
     = [4278419646001971 / 2 ^ 52, 2026619832316723 / 2 ^ 51, 7656119366529843 / 2 ^ 53,
        7205759403792793 / 2 ^ 53, 3 / 4]
   \<and> list_all (\<lambda>r. score r < 1)
         (projr (searchSimilarChunks False failingSearchScript [] None (Some 5) (Some 1)))
   \<and> map hit_score storedPoints = [7 / 8, 5 / 8]
   \<and> map hit_score (projr (searchSimilar thresholdClient [] defaultOptions)) = [7 / 8]"
proof -
  have r: "searchSimilarChunks False failingSearchScript [] None (Some 5) (Some 1)
             = Inr (getMockSearchResults None 5)"
    by (simp add: searchSimilarChunks_def failingSearchScript_def)
  have a: "map score (getMockSearchResults None 5)
     = [4278419646001971 / 2 ^ 52, 2026619832316723 / 2 ^ 51, 7656119366529843 / 2 ^ 53,
        7205759403792793 / 2 ^ 53, 3 / 4]"
    by (simp add: getMockSearchResults_scores)
  have "list_all (\<lambda>s. s < 1) (map score (getMockSearchResults None 5))"
    unfolding a by simp
  then have b: "list_all (\<lambda>r. score r < 1) (getMockSearchResults None 5)"
    by (simp add: list_all_iff)
  have c: "map hit_score storedPoints = [7 / 8, 5 / 8]"
    by (simp add: storedPoints_def)
  have d: "map hit_score (projr (searchSimilar thresholdClient [] defaultOptions)) = [7 / 8]"
    by (simp add: searchSimilar_eq thresholdClient_def defaultOptions_def storedPoints_def
          toDouble_default_threshold)
  from a b c d show ?thesis unfolding r by simp
qed

text \<open>
  C7 (amended). The services leave the filtering by score to the search engine.
  \<^verbatim>\<open>searchSimilar\<close> calls the Qdrant client once, with the query vector, the limit (10 by
  default), \<open>score_threshold = scoreThreshold\<close> (by default the double 0.7, which is
  above 0), the filter, the payload and the vector flag, and returns what the client
  answers or throws, unchanged; so when the client honours the request, every hit
  returned reaches the threshold and there are at most \<open>limit\<close> of them.
  \<^verbatim>\<open>searchSimilarChunks\<close> (by default \<open>topK = 5\<close> and threshold 0) hands the script
  \<^verbatim>\<open>--threshold\<close> with the threshold as the last two arguments when the threshold is
  above 0 and no \<^verbatim>\<open>--threshold\<close> otherwise, and returns the results of a successful call
  as they are; in mock mode or after a failed call it returns the first \<open>min(topK, 8)\<close>
  mock results, whose scores are the first of the doubles 0.95, 0.8999999999999999, 0.85,
  0.7999999999999999, 0.75, 0.7, 0.6499999999999999, 0.5999999999999999, whatever the
  threshold.
\<close>

theorem score_threshold_forwarded:
  "searchSimilar client queryVector options
     = client \<lparr> request_vector = queryVector,
                limit = (case opt_limit options of None \<Rightarrow> 10 | Some l \<Rightarrow> l),
                score_threshold = (case opt_scoreThreshold options of
                                     None \<Rightarrow> toDouble 0.7 | Some t \<Rightarrow> t),
                request_filter = opt_filter options,
                with_payload = True,
                with_vector = (case opt_withEmbedding options of None \<Rightarrow> False | Some w \<Rightarrow> w) \<rparr>
   \<and> toDouble 0.7 = 3152519739159347 / 2 ^ 52
   \<and> ((\<forall>request hits. client request = Inr hits \<longrightarrow>
          (\<forall>h \<in> set hits. score_threshold request \<le> hit_score h)
          \<and> length hits \<le> nat (limit request)) \<longrightarrow>
        searchSimilar client queryVector options = Inr results \<longrightarrow>
          (\<forall>r \<in> set results.
             (case opt_scoreThreshold options of None \<Rightarrow> toDouble 0.7 | Some t \<Rightarrow> t)
               \<le> hit_score r)
          \<and> length results \<le> nat (case opt_limit options of None \<Rightarrow> 10 | Some l \<Rightarrow> l))
   \<and> searchSimilarChunks mockMode script queryEmbedding documentId None None
       = searchSimilarChunks mockMode script queryEmbedding documentId (Some 5) (Some 0)
   \<and> (0 < threshold \<longrightarrow>
         drop (length (searchArgs queryEmbedding documentId topK threshold) - 2)
           (searchArgs queryEmbedding documentId topK threshold)
         = [Flag ''--threshold'', Num threshold])
   \<and> (Flag ''--threshold'' \<in> set (searchArgs queryEmbedding documentId topK threshold)
        \<longleftrightarrow> 0 < threshold)
   \<and> (\<not> mockMode
        \<and> script (Command ''search'' # searchArgs queryEmbedding documentId topK threshold)
            = Inr (Some found) \<longrightarrow>
        searchSimilarChunks mockMode script queryEmbedding documentId (Some topK) (Some threshold)
          = Inr found)
   \<and> (mockMode
        \<or> (\<exists>e. script (Command ''search'' # searchArgs queryEmbedding documentId topK threshold)
                 = Inl e) \<longrightarrow>
        searchSimilarChunks mockMode script queryEmbedding documentId (Some topK) (Some threshold)
          = Inr (getMockSearchResults documentId topK)
        \<and> map score (getMockSearchResults documentId topK)
            = take (nat topK)
                [4278419646001971 / 2 ^ 52, 2026619832316723 / 2 ^ 51,
                 7656119366529843 / 2 ^ 53, 7205759403792793 / 2 ^ 53, 3 / 4,
                 3152519739159347 / 2 ^ 52, 1463669878895411 / 2 ^ 51,
                 2702159776422297 / 2 ^ 52])"
proof -
  let ?request = "\<lparr> request_vector = queryVector,
                limit = (case opt_limit options of None \<Rightarrow> 10 | Some l \<Rightarrow> l),
                score_threshold = (case opt_scoreThreshold options of
                                     None \<Rightarrow> toDouble 0.7 | Some t \<Rightarrow> t),
                request_filter = opt_filter options,
                with_payload = True,
                with_vector = (case opt_withEmbedding options of None \<Rightarrow> False | Some w \<Rightarrow> w) \<rparr>"
  have 1: "searchSimilar client queryVector options = client ?request"
    by (rule searchSimilar_eq)
  have 2: "(\<forall>request hits. client request = Inr hits \<longrightarrow>
          (\<forall>h \<in> set hits. score_threshold request \<le> hit_score h)
          \<and> length hits \<le> nat (limit request)) \<longrightarrow>
        searchSimilar client queryVector options = Inr results \<longrightarrow>
          (\<forall>r \<in> set results.
             (case opt_scoreThreshold options of None \<Rightarrow> toDouble 0.7 | Some t \<Rightarrow> t)
               \<le> hit_score r)
          \<and> length results \<le> nat (case opt_limit options of None \<Rightarrow> 10 | Some l \<Rightarrow> l)"
  proof (intro impI)
    assume honours: "\<forall>request hits. client request = Inr hits \<longrightarrow>
          (\<forall>h \<in> set hits. score_threshold request \<le> hit_score h)
          \<and> length hits \<le> nat (limit request)"
    assume "searchSimilar client queryVector options = Inr results"
    then have "client ?request = Inr results"
      by (simp only: 1)
    from honours [rule_format, OF this]
    show "(\<forall>r \<in> set results.
             (case opt_scoreThreshold options of None \<Rightarrow> toDouble 0.7 | Some t \<Rightarrow> t)
               \<le> hit_score r)
          \<and> length results \<le> nat (case opt_limit options of None \<Rightarrow> 10 | Some l \<Rightarrow> l)"
      by simp
  qed
  have 3: "searchSimilarChunks mockMode script queryEmbedding documentId None None
       = searchSimilarChunks mockMode script queryEmbedding documentId (Some 5) (Some 0)"
    by (simp add: searchSimilarChunks_def)
  have 4: "\<not> mockMode
        \<and> script (Command ''search'' # searchArgs queryEmbedding documentId topK threshold)
            = Inr (Some found) \<longrightarrow>
        searchSimilarChunks mockMode script queryEmbedding documentId (Some topK) (Some threshold)
          = Inr found"
    by (simp add: searchSimilarChunks_def)
  have 5: "mockMode
        \<or> (\<exists>e. script (Command ''search'' # searchArgs queryEmbedding documentId topK threshold)
                 = Inl e) \<longrightarrow>
        searchSimilarChunks mockMode script queryEmbedding documentId (Some topK) (Some threshold)
          = Inr (getMockSearchResults documentId topK)"
    by (auto simp: searchSimilarChunks_def)
  from 1 toDouble_default_threshold 2 3
    searchArgs_threshold [of threshold queryEmbedding documentId topK] 4 5
    getMockSearchResults_scores [of documentId topK]
  show ?thesis by blast
qed

text \<open>
  The client that honours the request, asked with a threshold of 0.625 and a limit of 5:
  both stored points reach the threshold and are returned. The script that answers:
  its two results are returned as they are, the one with score 0.6 too. The script that
  fails: two mock results.
\<close>

theorem score_threshold_forwarded_witness:
  "map hit_score
     (projr (searchSimilar thresholdClient []
               \<lparr> opt_limit = Some 5, opt_scoreThreshold = Some (5 / 8), opt_filter = None,
                 opt_withEmbedding = None \<rparr>)) = [7 / 8, 5 / 8]
   \<and> list_all (\<lambda>h. 5 / 8 \<le> hit_score h) storedPoints
   \<and> length storedPoints \<le> 5
   \<and> searchSimilarChunks False answeringSearchScript [] None (Some 5) (Some (5 / 8))
       = Inr [exampleResult ''a'' 90, exampleResult ''b'' 60]
   \<and> map score (projr (searchSimilarChunks False failingSearchScript [] None (Some 2) (Some (5 / 8))))
       = [4278419646001971 / 2 ^ 52, 2026619832316723 / 2 ^ 51]"
proof -
  let ?options = "\<lparr> opt_limit = Some 5, opt_scoreThreshold = Some (5 / 8), opt_filter = None,
                    opt_withEmbedding = None \<rparr> :: unit searchOptions"
  note answering = score_threshold_forwarded
         [where client = thresholdClient and queryVector = "[]" and options = ?options
            and results = storedPoints and mockMode = False and script = answeringSearchScript
            and queryEmbedding = "[]" and documentId = None and topK = 5 and threshold = "5 / 8"
            and found = "[exampleResult ''a'' 90, exampleResult ''b'' 60]"]
  note failing = score_threshold_forwarded
         [where client = thresholdClient and queryVector = "[]" and options = ?options
            and results = storedPoints and mockMode = False and script = failingSearchScript
            and queryEmbedding = "[]" and documentId = None and topK = 2 and threshold = "5 / 8"
            and found = "[]"]
  from answering have "searchSimilar thresholdClient [] ?options
     = thresholdClient \<lparr> request_vector = [], limit = 5, score_threshold = 5 / 8,
                          request_filter = None, with_payload = True, with_vector = False \<rparr>"
    by simp
  then have e: "searchSimilar thresholdClient [] ?options = Inr storedPoints"
    by (simp add: thresholdClient_def storedPoints_def)
  from answering thresholdClient_honours e
  have "(\<forall>r \<in> set storedPoints. 5 / 8 \<le> hit_score r) \<and> length storedPoints \<le> nat 5"
    by simp
  then have h: "list_all (\<lambda>h. 5 / 8 \<le> hit_score h) storedPoints \<and> length storedPoints \<le> 5"
    by (simp add: list_all_iff)
  have "answeringSearchScript (Command ''search'' # searchArgs [] None 5 (5 / 8))
          = Inr (Some [exampleResult ''a'' 90, exampleResult ''b'' 60])"
    by (simp add: answeringSearchScript_def)
  with answering
  have s: "searchSimilarChunks False answeringSearchScript [] None (Some 5) (Some (5 / 8))
       = Inr [exampleResult ''a'' 90, exampleResult ''b'' 60]"
    by blast
  have "\<exists>e. failingSearchScript (Command ''search'' # searchArgs [] None 2 (5 / 8)) = Inl e"
    by (simp add: failingSearchScript_def)
  with failing
  have "searchSimilarChunks False failingSearchScript [] None (Some 2) (Some (5 / 8))
          = Inr (getMockSearchResults None 2)
        \<and> map score (getMockSearchResults None 2)
            = take (nat 2)
                [4278419646001971 / 2 ^ 52, 2026619832316723 / 2 ^ 51,
                 7656119366529843 / 2 ^ 53, 7205759403792793 / 2 ^ 53, 3 / 4,
                 3152519739159347 / 2 ^ 52, 1463669878895411 / 2 ^ 51,
                 2702159776422297 / 2 ^ 52]"
    by blast
  then have f: "map score (projr (searchSimilarChunks False failingSearchScript [] None (Some 2) (Some (5 / 8))))
       = [4278419646001971 / 2 ^ 52, 2026619832316723 / 2 ^ 51]"
    by simp
  from e h s f show ?thesis by (simp add: storedPoints_def)
qed

section \<open>Hybrid retrieval: the chunks of both results rank first\<close>

lemma set_insertRanked: "set (insertRanked x rs) = insert x (set rs)"
  by (induction rs) auto

lemma set_orderTier: "set (orderTier rs) = set rs"
  by (induction rs) (simp_all add: orderTier_def set_insertRanked)

lemma length_insertRanked: "length (insertRanked x rs) = Suc (length rs)"
  by (induction rs) auto

lemma length_orderTier: "length (orderTier rs) = length rs"
  by (induction rs) (simp_all add: orderTier_def length_insertRanked)

lemma markSource_cases:
  "r \<in> set (markSource dense lexical) \<Longrightarrow>
     (\<exists>x \<in> set dense.
        r = x \<lparr> source := (if retrieved_id x \<in> retrieved_id ` set lexical then Both else Dense) \<rparr>)
     \<or> (\<exists>x \<in> set lexical.
           retrieved_id x \<notin> retrieved_id ` set dense \<and> r = x \<lparr> source := Lexical \<rparr>)"
  unfolding markSource_def by fastforce

lemma markSource_ids:
  assumes "r \<in> set (markSource dense lexical)"
  shows "source r = Both \<longleftrightarrow>
           retrieved_id r \<in> retrieved_id ` set dense \<inter> retrieved_id ` set lexical"
proof -
  from markSource_cases [OF assms] show ?thesis
  proof
    assume "\<exists>x \<in> set dense.
        r = x \<lparr> source := (if retrieved_id x \<in> retrieved_id ` set lexical then Both else Dense) \<rparr>"
    then obtain x where x: "x \<in> set dense"
      and r: "r = x \<lparr> source := (if retrieved_id x \<in> retrieved_id ` set lexical then Both else Dense) \<rparr>"
      by blast
    from r have i: "retrieved_id r = retrieved_id x" by simp
    from x have d: "retrieved_id x \<in> retrieved_id ` set dense" by (rule imageI)
    show ?thesis
    proof (cases "retrieved_id x \<in> retrieved_id ` set lexical")
      case True
      with r have "source r = Both" by simp
      with True d i show ?thesis by simp
    next
      case False
      with r have "source r = Dense" by simp
      with False i show ?thesis by simp
    qed
  next
    assume "\<exists>x \<in> set lexical.
           retrieved_id x \<notin> retrieved_id ` set dense \<and> r = x \<lparr> source := Lexical \<rparr>"
    then obtain x where "retrieved_id x \<notin> retrieved_id ` set dense" "r = x \<lparr> source := Lexical \<rparr>"
      by blast
    then show ?thesis by simp
  qed
qed

lemma markSource_both:
  assumes "a \<in> retrieved_id ` set dense \<inter> retrieved_id ` set lexical"
  shows "\<exists>r \<in> set (markSource dense lexical). retrieved_id r = a \<and> source r = Both"
proof -
  from assms obtain d where d: "d \<in> set dense" "retrieved_id d = a"
    and l: "a \<in> retrieved_id ` set lexical" by auto
  let ?mark = "\<lambda>r. r \<lparr> source := (if retrieved_id r \<in> retrieved_id ` set lexical then Both else Dense) \<rparr>"
  from d(1) have "?mark d \<in> ?mark ` set dense" by (rule imageI)
  then have "?mark d \<in> set (markSource dense lexical)"
    unfolding markSource_def by simp
  moreover from d l have "retrieved_id (?mark d) = a \<and> source (?mark d) = Both" by simp
  ultimately show ?thesis by blast
qed

lemma assignRanks_length: "length (assignRanks rs) = length rs"
  by (simp add: assignRanks_def)

lemma assignRanks_nth:
  "i < length rs \<Longrightarrow> assignRanks rs ! i = (rs ! i) \<lparr> rank := i + 1 \<rparr>"
  by (simp add: assignRanks_def)

lemma assignRanks_member:
  "y \<in> set (assignRanks rs) \<Longrightarrow> \<exists>j < length rs. y = (rs ! j) \<lparr> rank := j + 1 \<rparr>"
  by (auto simp: assignRanks_def)

text \<open>
  C2. In the merged result of the hybrid retrieval for a query, a chunk that both the
  dense and the lexical result hold is present whenever a chunk that only one of them
  holds is present, and it has a strictly smaller rank; the first is tagged both, the
  second is not.
\<close>

theorem hybridMerge_both_above_single:
  assumes "a \<in> retrieved_id ` set dense \<inter> retrieved_id ` set lexical"
    and "b \<in> (retrieved_id ` set dense \<union> retrieved_id ` set lexical)
              - (retrieved_id ` set dense \<inter> retrieved_id ` set lexical)"
    and "y \<in> set (hybridMerge topK dense lexical)"
    and "retrieved_id y = b"
  shows "(\<exists>x \<in> set (hybridMerge topK dense lexical). retrieved_id x = a)
         \<and> (\<forall>x \<in> set (hybridMerge topK dense lexical).
               retrieved_id x = a \<longrightarrow> rank x < rank y \<and> source x = Both)
         \<and> source y \<noteq> Both"
proof -
  let ?ids = "retrieved_id ` set dense \<inter> retrieved_id ` set lexical"
  define marked where "marked = markSource dense lexical"
  define both where "both = orderTier (filter (\<lambda>r. source r = Both) marked)"
  define single where "single = orderTier (filter (\<lambda>r. source r \<noteq> Both) marked)"
  define tiers where "tiers = take topK (both @ single)"
  have merged: "hybridMerge topK dense lexical = assignRanks tiers"
    by (simp add: hybridMerge_def Let_def tiers_def both_def single_def marked_def)
  have both: "retrieved_id r \<in> ?ids \<and> source r = Both" if "r \<in> set both" for r
  proof -
    from that have "r \<in> set (markSource dense lexical)" and "source r = Both"
      by (simp_all add: both_def marked_def set_orderTier)
    with markSource_ids [of r dense lexical] show ?thesis by simp
  qed
  have single: "retrieved_id r \<notin> ?ids \<and> source r \<noteq> Both" if "r \<in> set single" for r
  proof -
    from that have "r \<in> set (markSource dense lexical)" and "source r \<noteq> Both"
      by (simp_all add: single_def marked_def set_orderTier)
    with markSource_ids [of r dense lexical] show ?thesis by simp
  qed
  have upper_nth: "tiers ! i = both ! i" if "i < length tiers" "i < length both" for i
    using that by (simp add: tiers_def nth_append del: take_append)
  have upper: "retrieved_id (tiers ! i) \<in> ?ids \<and> source (tiers ! i) = Both"
    if "i < length tiers" "i < length both" for i
  proof -
    from that have "both ! i \<in> set both" by simp
    from both [OF this] upper_nth [OF that] show ?thesis by simp
  qed
  have lower: "retrieved_id (tiers ! i) \<notin> ?ids \<and> source (tiers ! i) \<noteq> Both"
    if "i < length tiers" "length both \<le> i" for i
  proof -
    from that have "tiers ! i = single ! (i - length both)" and "i - length both < length single"
      by (simp_all add: tiers_def nth_append del: take_append, linarith)
    then have "tiers ! i \<in> set single" by simp
    with single show ?thesis by blast
  qed
  from assms(3) obtain j where j: "j < length tiers" "y = (tiers ! j) \<lparr> rank := j + 1 \<rparr>"
    unfolding merged using assignRanks_member by blast
  from assms(2,4) j have yb: "retrieved_id (tiers ! j) \<notin> ?ids" by simp
  have jb: "length both \<le> j"
  proof (rule ccontr)
    assume "\<not> length both \<le> j"
    then have "j < length both" by simp
    from upper [OF j(1) this] yb show False by blast
  qed
  from lower [OF j(1) jb] j(2) have ys: "source y \<noteq> Both" by simp
  from markSource_both [OF assms(1)] obtain r
    where "r \<in> set (markSource dense lexical)" "retrieved_id r = a" "source r = Both"
    by blast
  then have "r \<in> set both"
    by (simp add: both_def marked_def set_orderTier)
  then obtain i where i: "i < length both" "both ! i = r"
    by (auto simp: in_set_conv_nth)
  with jb j(1) have il: "i < length tiers" by linarith
  from upper_nth [OF il i(1)] i(2) \<open>retrieved_id r = a\<close>
  have "retrieved_id (tiers ! i) = a" by simp
  moreover from il have "assignRanks tiers ! i \<in> set (assignRanks tiers)"
    by (intro nth_mem) (simp add: assignRanks_length)
  ultimately have "assignRanks tiers ! i \<in> set (assignRanks tiers)
                  \<and> retrieved_id (assignRanks tiers ! i) = a"
    using il by (simp add: assignRanks_nth)
  then have ex: "\<exists>x \<in> set (hybridMerge topK dense lexical). retrieved_id x = a"
    unfolding merged by blast
  have all: "\<forall>x \<in> set (hybridMerge topK dense lexical).
               retrieved_id x = a \<longrightarrow> rank x < rank y \<and> source x = Both"
  proof (intro ballI impI)
    fix x
    assume "x \<in> set (hybridMerge topK dense lexical)" and xa: "retrieved_id x = a"
    then obtain k where k: "k < length tiers" "x = (tiers ! k) \<lparr> rank := k + 1 \<rparr>"
      unfolding merged using assignRanks_member by blast
    with xa assms(1) have xi: "retrieved_id (tiers ! k) \<in> ?ids" by simp
    have kb: "k < length both"
    proof (rule ccontr)
      assume "\<not> k < length both"
      then have "length both \<le> k" by simp
      from lower [OF k(1) this] xi show False by blast
    qed
    from upper [OF k(1) kb] have "source (tiers ! k) = Both" by simp
    with kb jb j(2) k(2) show "rank x < rank y \<and> source x = Both" by simp
  qed
  from ys ex all show ?thesis by blast
qed

lemma hybridMerge_example:
  "hybridMerge 3 denseLeg lexicalLeg
     = [legResult ''c'' (5 / 8) 2 1 Both, legResult ''d'' 3 3 2 Lexical,
        legResult ''a'' (7 / 8) 0 3 Dense]"
  by (simp add: hybridMerge_def markSource_def orderTier_def ranksBefore_def assignRanks_def
        denseLeg_def lexicalLeg_def legResult_def Let_def upt_conv_Cons)

text \<open>
  The merge of the two example results, cut to three: chunk c, which both legs found,
  has rank 1; chunk d of the lexical leg and chunk a of the dense leg follow it.
\<close>

theorem hybridMerge_both_above_single_witness:
  "map (\<lambda>r. (retrieved_id r, rank r, source r)) (hybridMerge 3 denseLeg lexicalLeg)
     = [(utf16 ''c'', 1, Both), (utf16 ''d'', 2, Lexical), (utf16 ''a'', 3, Dense)]
   \<and> (\<exists>x \<in> set (hybridMerge 3 denseLeg lexicalLeg). retrieved_id x = utf16 ''c'')
   \<and> rank (legResult ''c'' (5 / 8) 2 1 Both) < rank (legResult ''d'' 3 3 2 Lexical)
   \<and> source (legResult ''d'' 3 3 2 Lexical) \<noteq> Both"
proof -
  have a: "utf16 ''c'' \<in> retrieved_id ` set denseLeg \<inter> retrieved_id ` set lexicalLeg"
    by (simp add: denseLeg_def lexicalLeg_def legResult_def)
  have b: "utf16 ''d'' \<in> (retrieved_id ` set denseLeg \<union> retrieved_id ` set lexicalLeg)
              - (retrieved_id ` set denseLeg \<inter> retrieved_id ` set lexicalLeg)"
    by (simp add: denseLeg_def lexicalLeg_def legResult_def)
  have y: "legResult ''d'' 3 3 2 Lexical \<in> set (hybridMerge 3 denseLeg lexicalLeg)"
    by (simp add: hybridMerge_example)
  have i: "retrieved_id (legResult ''d'' 3 3 2 Lexical) = utf16 ''d''"
    by (simp add: legResult_def)
  have c: "legResult ''c'' (5 / 8) 2 1 Both \<in> set (hybridMerge 3 denseLeg lexicalLeg)"
    by (simp add: hybridMerge_example)
  have e: "map (\<lambda>r. (retrieved_id r, rank r, source r)) (hybridMerge 3 denseLeg lexicalLeg)
     = [(utf16 ''c'', 1, Both), (utf16 ''d'', 2, Lexical), (utf16 ''a'', 3, Dense)]"
    by (simp add: hybridMerge_example legResult_def)
  note t = hybridMerge_both_above_single [OF a b y i]
  from t have 1: "\<exists>x \<in> set (hybridMerge 3 denseLeg lexicalLeg). retrieved_id x = utf16 ''c''"
    by (rule conjunct1)
  from t have "\<forall>x \<in> set (hybridMerge 3 denseLeg lexicalLeg).
               retrieved_id x = utf16 ''c'' \<longrightarrow>
                 rank x < rank (legResult ''d'' 3 3 2 Lexical) \<and> source x = Both"
    by (rule conjunct2 [THEN conjunct1])
  from this [rule_format, OF c]
  have 2: "rank (legResult ''c'' (5 / 8) 2 1 Both) < rank (legResult ''d'' 3 3 2 Lexical)"
    by (simp add: legResult_def)
  from t have 3: "source (legResult ''d'' 3 3 2 Lexical) \<noteq> Both"
    by (rule conjunct2 [THEN conjunct2])
  from e 1 2 3 show ?thesis by blast
qed

end
